theory Spec2Isabelle
  imports Main
begin

section \<open>Shared vocabulary\<close>

text \<open>
  Instants are POSIX timestamps in microseconds (the resolution of Python's
  \<^verbatim>\<open>datetime\<close>); every \<^verbatim>\<open>datetime.now(timezone.utc)\<close> read inside one call is
  taken to be the same instant \<open>now\<close>.
\<close>

type_synonym datetime = int

text \<open>
  The exceptions this part of the program raises or lets escape. \<open>HTTPException\<close>
  carries the status code and the detail string; the others are uncaught Python
  exceptions, which the framework turns into a 500 response. \<open>TimestampOutOfRange\<close>
  stands for whichever of \<^verbatim>\<open>ValueError\<close>, \<^verbatim>\<open>OverflowError\<close> and \<^verbatim>\<open>OSError\<close> the
  platform raises for a timestamp it cannot turn into a \<^verbatim>\<open>datetime\<close>.
\<close>

datatype error =
    HTTPException int string
  | ValidationError
  | TypeError
  | ValueError
  | IndexError
  | MultipleResultsFound
  | IntegrityError
  | ProgrammingError
  | OperationalError
  | DBAPIError
  | MissingGreenlet
  | TimestampOutOfRange

text \<open>Python's truth value of an \<^verbatim>\<open>Optional[str]\<close>: \<^verbatim>\<open>None\<close> and \<^verbatim>\<open>""\<close> are false.\<close>

fun truthy :: "string option \<Rightarrow> bool" where
  "truthy None = False"
| "truthy (Some s) = (s \<noteq> [])"

text \<open>\<^verbatim>\<open>str.startswith\<close>.\<close>

definition startswith :: "string \<Rightarrow> string \<Rightarrow> bool" where
  "startswith s p = (take (length p) s = p)"

text \<open>
  \<^verbatim>\<open>str.split(sep)\<close> for a one-character separator: every occurrence splits, empty
  pieces are kept, and the result is never empty.
\<close>

fun split_chr :: "char \<Rightarrow> string \<Rightarrow> string list" where
  "split_chr c [] = [[]]"
| "split_chr c (x # xs) =
     (if x = c then [] # split_chr c xs
      else (case split_chr c xs of
              [] \<Rightarrow> [[x]]
            | y # ys \<Rightarrow> (x # y) # ys))"

text \<open>\<^verbatim>\<open>sep.join(xs)\<close>.\<close>

fun join :: "string \<Rightarrow> string list \<Rightarrow> string" where
  "join sep [] = []"
| "join sep [x] = x"
| "join sep (x # y # ys) = x @ sep @ join sep (y # ys)"

section \<open>Configuration (app/core/config.py)\<close>

definition API_V1_PREFIX :: string where
  "API_V1_PREFIX = ''/api/v1''"

definition TENANT_SCHEMA_PREFIX :: string where
  "TENANT_SCHEMA_PREFIX = ''tenant_''"

definition ACCESS_TOKEN_EXPIRE_MINUTES :: int where
  "ACCESS_TOKEN_EXPIRE_MINUTES = 30"

definition REFRESH_TOKEN_EXPIRE_DAYS :: int where
  "REFRESH_TOKEN_EXPIRE_DAYS = 7"

section \<open>Tokens (app/core/security.py)\<close>

text \<open>
  The claims object inside a signed token. \<^verbatim>\<open>decode_token\<close> reads it with
  \<^verbatim>\<open>payload.get\<close>, so each claim may be absent.
\<close>

record claims =
  c_sub :: "string option"
  c_tenant_id :: "string option"
  c_roles :: "string list option"
  c_exp :: "int option"
  c_type :: "string option"

text \<open>\<^verbatim>\<open>TokenPayload\<close>: \<open>p_exp\<close> is an instant, the other fields are as in the source.\<close>

record token_payload =
  p_sub :: string
  p_tenant_id :: string
  p_exp :: datetime
  p_type :: string
  p_roles :: "string list"

text \<open>
  The signature layer of the JWT library is a parameter \<open>jws\<close>: it maps a token string to
  its claims when the string is a well-formed token whose signature validates under
  \<^verbatim>\<open>SECRET_KEY\<close> with \<^verbatim>\<open>ALGORITHM\<close>, and to \<open>None\<close> otherwise. On top of it,
  \<^verbatim>\<open>jwt.decode\<close> refuses a token whose \<^verbatim>\<open>exp\<close> claim (whole seconds) lies before the
  current second. \<open>None\<close> stands for a raised \<^verbatim>\<open>JWTError\<close>.
\<close>

type_synonym jws = "string \<Rightarrow> claims option"

definition jwt_decode :: "jws \<Rightarrow> datetime \<Rightarrow> string \<Rightarrow> claims option" where
  "jwt_decode jws now token =
     (case jws token of
        None \<Rightarrow> None
      | Some c \<Rightarrow>
          (case c_exp c of
             None \<Rightarrow> Some c
           | Some e \<Rightarrow> if e < now div 1000000 then None else Some c))"

text \<open>
  \<^verbatim>\<open>datetime.fromtimestamp(ts, tz=timezone.utc)\<close>: \<^verbatim>\<open>None\<close> is a \<^verbatim>\<open>TypeError\<close>; a
  timestamp outside the years 1 to 9999 raises (\<^verbatim>\<open>ValueError\<close> near the range,
  \<^verbatim>\<open>OverflowError\<close> beyond the platform's \<^verbatim>\<open>time_t\<close>).
\<close>

definition fromtimestamp :: "int option \<Rightarrow> error + datetime" where
  "fromtimestamp ts =
     (case ts of
        None \<Rightarrow> Inl TypeError
      | Some e \<Rightarrow>
          if e < - 62135596800 \<or> 253402300799 < e then Inl TimestampOutOfRange
          else Inr (e * 1000000))"

text \<open>
  \<^verbatim>\<open>decode_token\<close>: only \<^verbatim>\<open>JWTError\<close> is caught. The keyword arguments of
  \<^verbatim>\<open>TokenPayload(...)\<close> are evaluated first (so \<^verbatim>\<open>fromtimestamp\<close> raises first), then
  the model validates that \<^verbatim>\<open>sub\<close> and \<^verbatim>\<open>tenant_id\<close> are strings.
\<close>

definition decode_token :: "jws \<Rightarrow> datetime \<Rightarrow> string \<Rightarrow> error + token_payload option" where
  "decode_token jws now token =
     (case jwt_decode jws now token of
        None \<Rightarrow> Inr None
      | Some c \<Rightarrow>
          (case fromtimestamp (c_exp c) of
             Inl e \<Rightarrow> Inl e
           | Inr exp_dt \<Rightarrow>
               (case c_sub c of
                  None \<Rightarrow> Inl ValidationError
                | Some s \<Rightarrow>
                    (case c_tenant_id c of
                       None \<Rightarrow> Inl ValidationError
                     | Some t \<Rightarrow>
                         Inr (Some \<lparr> p_sub = s, p_tenant_id = t, p_exp = exp_dt,
                                     p_type = (case c_type c of None \<Rightarrow> ''access'' | Some k \<Rightarrow> k),
                                     p_roles = (case c_roles c of None \<Rightarrow> [] | Some rs \<Rightarrow> rs) \<rparr>)))))"

definition verify_token ::
  "jws \<Rightarrow> datetime \<Rightarrow> string \<Rightarrow> string \<Rightarrow> error + token_payload option" where
  "verify_token jws now token token_type =
     (case decode_token jws now token of
        Inl e \<Rightarrow> Inl e
      | Inr None \<Rightarrow> Inr None
      | Inr (Some payload) \<Rightarrow>
          if p_type payload \<noteq> token_type then Inr None
          else if p_exp payload < now then Inr None
          else Inr (Some payload))"

section \<open>Tenant context (app/core/tenancy.py)\<close>

text \<open>
  A request as the middleware reads it: the URL path and the headers (looked up by
  name; a missing header is \<open>None\<close>).
\<close>

record request =
  path :: string
  headers :: "string \<rightharpoonup> string"

definition PUBLIC_PATHS :: "string list" where
  "PUBLIC_PATHS =
     [''/'', ''/health'', ''/docs'', ''/redoc'', ''/openapi.json'',
      API_V1_PREFIX @ ''/auth/login'',
      API_V1_PREFIX @ ''/auth/register'',
      API_V1_PREFIX @ ''/auth/refresh'',
      API_V1_PREFIX @ ''/tenants/register'']"

fun is_public_path_in :: "string list \<Rightarrow> string \<Rightarrow> bool" where
  "is_public_path_in [] p = False"
| "is_public_path_in (public_path # rest) p =
     (if startswith p public_path \<or> p = public_path then True
      else is_public_path_in rest p)"

definition is_public_path :: "string \<Rightarrow> bool" where
  "is_public_path p = is_public_path_in PUBLIC_PATHS p"

text \<open>
  \<^verbatim>\<open>_extract_tenant\<close>. \<^verbatim>\<open>auth_header.split(" ")[1]\<close> is the second piece of the header;
  an exception escaping \<^verbatim>\<open>decode_token\<close> escapes here too.
\<close>

definition extract_tenant :: "jws \<Rightarrow> datetime \<Rightarrow> request \<Rightarrow> error + string option" where
  "extract_tenant jws now req =
     (let from_token =
            (case headers req ''Authorization'' of
               None \<Rightarrow> Inr None
             | Some auth_header \<Rightarrow>
                 if auth_header \<noteq> [] \<and> startswith auth_header ''Bearer '' then
                   (case split_chr CHR '' '' auth_header of
                      _ # token # _ \<Rightarrow>
                        (case decode_token jws now token of
                           Inl e \<Rightarrow> Inl e
                         | Inr None \<Rightarrow> Inr None
                         | Inr (Some payload) \<Rightarrow>
                             if p_tenant_id payload \<noteq> [] then Inr (Some (p_tenant_id payload))
                             else Inr None)
                    | _ \<Rightarrow> Inl IndexError)
                 else Inr None)
      in case from_token of
           Inl e \<Rightarrow> Inl e
         | Inr (Some t) \<Rightarrow> Inr (Some t)
         | Inr None \<Rightarrow>
             (let tenant_header = headers req ''X-Tenant-ID'' in
              if truthy tenant_header then Inr tenant_header
              else
                (let host = (case headers req ''Host'' of None \<Rightarrow> [] | Some h \<Rightarrow> h) in
                 if CHR ''.'' \<in> set host then
                   (case split_chr CHR ''.'' host of
                      [] \<Rightarrow> Inl IndexError
                    | subdomain # _ \<Rightarrow>
                        if subdomain \<noteq> [] \<and> subdomain \<notin> set [''www'', ''api'', ''app'']
                        then Inr (Some subdomain)
                        else Inr None)
                 else Inr None)))"

text \<open>
  \<^verbatim>\<open>dispatch\<close>. The state is the value of the context variable
  \<^verbatim>\<open>current_tenant_id\<close>; \<open>call_next\<close> is the downstream application, which sees that
  value and \<^verbatim>\<open>request.state.tenant_id\<close> (unset reads as \<open>None\<close>) and either returns a
  response or raises. The result pairs the value the context variable holds when
  \<^verbatim>\<open>dispatch\<close> is left with what \<^verbatim>\<open>dispatch\<close> returns or raises.
\<close>

definition dispatch ::
  "jws \<Rightarrow> datetime \<Rightarrow> (string option \<Rightarrow> string option \<Rightarrow> error + 'r) \<Rightarrow> request \<Rightarrow>
   string option \<Rightarrow> string option \<times> (error + 'r)" where
  "dispatch jws now call_next req cur =
     (if is_public_path (path req) then (cur, call_next cur None)
      else
        (case extract_tenant jws now req of
           Inl e \<Rightarrow> (cur, Inl e)
         | Inr tenant_id \<Rightarrow>
             (let cur1 = (if truthy tenant_id then tenant_id
                          else if \<not> is_public_path (path req) then None else cur);
                  state1 = (if truthy tenant_id then tenant_id else None)
              in case call_next cur1 state1 of
                   Inl e \<Rightarrow> (cur1, Inl e)
                 | Inr response \<Rightarrow> (None, Inr response))))"

section \<open>Authorization dependencies (app/core/dependencies.py)\<close>

text \<open>
  \<open>credentials\<close> is what the bearer scheme hands over: the token string, or \<open>None\<close> when
  the request carries no bearer credentials.
\<close>

definition get_current_user_token ::
  "jws \<Rightarrow> datetime \<Rightarrow> string option \<Rightarrow> error + token_payload" where
  "get_current_user_token jws now credentials =
     (case credentials of
        None \<Rightarrow> Inl (HTTPException 401 ''Not authenticated'')
      | Some token \<Rightarrow>
          (case verify_token jws now token ''access'' of
             Inl e \<Rightarrow> Inl e
           | Inr None \<Rightarrow> Inl (HTTPException 401 ''Invalid or expired token'')
           | Inr (Some token_payload) \<Rightarrow> Inr token_payload))"

definition role_checker :: "string list \<Rightarrow> token_payload \<Rightarrow> error + token_payload" where
  "role_checker required_roles token =
     (let user_roles = set (p_roles token);
          required = set required_roles
      in if ''admin'' \<in> user_roles then Inr token
         else if required \<inter> user_roles = {} then
           Inl (HTTPException 403 (''Required roles: '' @ join '', '' required_roles))
         else Inr token)"

text \<open>
  \<^verbatim>\<open>require_roles(*required_roles)\<close> as the framework runs it: the dependency
  \<^verbatim>\<open>get_current_user_token\<close> first, then \<^verbatim>\<open>role_checker\<close> on its result.
\<close>

definition require_roles ::
  "string list \<Rightarrow> jws \<Rightarrow> datetime \<Rightarrow> string option \<Rightarrow> error + token_payload" where
  "require_roles required_roles jws now credentials =
     (case get_current_user_token jws now credentials of
        Inl e \<Rightarrow> Inl e
      | Inr token \<Rightarrow> role_checker required_roles token)"

section \<open>Identities and the account guard (app/models/user.py, app/services/user_service.py)\<close>

text \<open>
  A row of \<^verbatim>\<open>users\<close> with the columns authentication reads or writes; \<open>role_codes\<close> is
  the loaded \<^verbatim>\<open>roles\<close> relationship.
\<close>

record user =
  user_id :: nat
  email :: string
  username :: string
  password_hash :: string
  is_active :: bool
  is_verified :: bool
  is_superuser :: bool
  is_deleted :: bool
  failed_login_attempts :: int
  locked_until :: "datetime option"
  last_login :: "datetime option"
  role_codes :: "string list"

text \<open>\<^verbatim>\<open>scalar_one_or_none()\<close>: no row, the one row, or \<^verbatim>\<open>MultipleResultsFound\<close>.\<close>

fun scalar_one_or_none :: "'a list \<Rightarrow> error + 'a option" where
  "scalar_one_or_none [] = Inr None"
| "scalar_one_or_none [x] = Inr (Some x)"
| "scalar_one_or_none (x # y # zs) = Inl MultipleResultsFound"

definition get_by_id :: "user list \<Rightarrow> nat \<Rightarrow> error + user option" where
  "get_by_id users uid =
     scalar_one_or_none (filter (\<lambda>u. user_id u = uid \<and> is_deleted u = False) users)"

definition get_by_email :: "user list \<Rightarrow> string \<Rightarrow> error + user option" where
  "get_by_email users e =
     scalar_one_or_none (filter (\<lambda>u. email u = e \<and> is_deleted u = False) users)"

definition get_by_username :: "user list \<Rightarrow> string \<Rightarrow> error + user option" where
  "get_by_username users n =
     scalar_one_or_none (filter (\<lambda>u. username u = n \<and> is_deleted u = False) users)"

text \<open>
  The \<^verbatim>\<open>UPDATE\<close> a commit issues for a changed row carries the changed columns. The
  columns \<^verbatim>\<open>last_login\<close> and \<^verbatim>\<open>locked_until\<close> are declared without a time zone
  (\<^verbatim>\<open>Mapped[Optional[datetime]]\<close>, no \<^verbatim>\<open>DateTime(timezone=True)\<close>), and every value the
  service writes to them is an aware \<^verbatim>\<open>datetime.now(timezone.utc)\<close>: the driver cannot
  bind such a value, so a commit that changes one of the two columns to a value (not to
  \<^verbatim>\<open>NULL\<close>) raises \<^verbatim>\<open>DBAPIError\<close> and stores nothing. Otherwise the row with that
  id is replaced.
\<close>

definition unbindable :: "user \<Rightarrow> user \<Rightarrow> bool" where
  "unbindable old new =
     ((locked_until new \<noteq> locked_until old \<and> locked_until new \<noteq> None) \<or>
      (last_login new \<noteq> last_login old \<and> last_login new \<noteq> None))"

definition commit_user :: "user list \<Rightarrow> user \<Rightarrow> user \<Rightarrow> error + user list" where
  "commit_user users old new =
     (if unbindable old new then Inl DBAPIError
      else Inr (map (\<lambda>x. if user_id x = user_id new then new else x) users))"

text \<open>
  \<^verbatim>\<open>datetime.minute\<close> of a UTC instant, and \<^verbatim>\<open>datetime.replace(minute=m)\<close>, which
  raises \<^verbatim>\<open>ValueError\<close> unless \<open>0 \<le> m \<le> 59\<close>.
\<close>

definition minute :: "datetime \<Rightarrow> int" where
  "minute t = (t div 60000000) mod 60"

definition replace_minute :: "datetime \<Rightarrow> int \<Rightarrow> error + datetime" where
  "replace_minute t m =
     (if 0 \<le> m \<and> m \<le> 59 then Inr (t - minute t * 60000000 + m * 60000000)
      else Inl ValueError)"

text \<open>
  \<^verbatim>\<open>UserService.authenticate\<close> on the \<^verbatim>\<open>users\<close> table the session sees. The password
  hash comparison \<open>verify_password\<close> is a parameter. The result pairs the table as
  committed with the value returned or the exception raised; an exception raised before
  or by \<^verbatim>\<open>commit\<close> leaves the table as it was.
\<close>

definition authenticate ::
  "(string \<Rightarrow> string \<Rightarrow> bool) \<Rightarrow> datetime \<Rightarrow> user list \<Rightarrow> string \<Rightarrow> string \<Rightarrow>
   user list \<times> (error + user option)" where
  "authenticate verify_password now users uname password =
     (case get_by_username users uname of
        Inl e \<Rightarrow> (users, Inl e)
      | Inr by_name \<Rightarrow>
          (case (case by_name of
                   None \<Rightarrow> get_by_email users uname
                 | Some u \<Rightarrow> Inr (Some u)) of
             Inl e \<Rightarrow> (users, Inl e)
           | Inr None \<Rightarrow> (users, Inr None)
           | Inr (Some u) \<Rightarrow>
               if \<not> is_active u then (users, Inr None)
               else if (case locked_until u of None \<Rightarrow> False | Some t \<Rightarrow> t > now)
                 then (users, Inr None)
               else if \<not> verify_password password (password_hash u) then
                 (let u1 = u\<lparr>failed_login_attempts := failed_login_attempts u + 1\<rparr> in
                  if failed_login_attempts u1 \<ge> 5 then
                    (case replace_minute now (minute now + 30) of
                       Inl e \<Rightarrow> (users, Inl e)
                     | Inr t \<Rightarrow>
                         (case commit_user users u (u1\<lparr>locked_until := Some t\<rparr>) of
                            Inl e \<Rightarrow> (users, Inl e)
                          | Inr us \<Rightarrow> (us, Inr None)))
                  else
                    (case commit_user users u u1 of
                       Inl e \<Rightarrow> (users, Inl e)
                     | Inr us \<Rightarrow> (us, Inr None)))
               else
                 (let u2 = u\<lparr>failed_login_attempts := 0, locked_until := None,
                             last_login := Some now\<rparr>
                  in case commit_user users u u2 of
                       Inl e \<Rightarrow> (users, Inl e)
                     | Inr us \<Rightarrow> (us, Inr (Some u2)))))"

section \<open>Storage (app/models/tenant.py, app/core/database.py)\<close>

text \<open>
  A row of \<^verbatim>\<open>public.tenants\<close> with the columns the services read or write, the tables
  of one schema (partition), and the database: the tenant directory, the settings rows (by
  tenant id) and the schemas by name. Whether a schema \<^verbatim>\<open>public\<close> with user tables is
  among them is left to the database: \<^verbatim>\<open>init_db\<close> creates none (its \<^verbatim>\<open>Base\<close> is not
  the models' \<^verbatim>\<open>Base\<close>).
\<close>

record tenant =
  t_id :: nat
  t_name :: string
  slug :: string
  t_is_active :: bool
  t_is_verified :: bool
  t_contact_email :: string
  schema_name :: string
  schema_created :: bool

record partition =
  has_tables :: bool
  users_rows :: "user list"
  roles_rows :: "string list"

record database =
  tenants_rows :: "tenant list"
  tenant_settings_rows :: "nat list"
  schemas :: "string \<rightharpoonup> partition"

text \<open>
  A session: the committed database and the view of the open transaction. \<^verbatim>\<open>commit\<close>
  makes the view durable, \<^verbatim>\<open>rollback\<close> (and closing the session) discards it.
\<close>

record session =
  committed :: database
  working :: database

definition commit :: "session \<Rightarrow> session" where
  "commit s = s\<lparr>committed := working s\<rparr>"

definition rollback :: "session \<Rightarrow> session" where
  "rollback s = s\<lparr>working := committed s\<rparr>"

text \<open>
  The schema names are spliced into the SQL text unquoted, so a statement naming a schema
  is a syntax error (\<^verbatim>\<open>ProgrammingError\<close>) unless the name is a plain identifier.
\<close>

definition is_identifier :: "string \<Rightarrow> bool" where
  "is_identifier s =
     (case s of
        [] \<Rightarrow> False
      | c # cs \<Rightarrow>
          c \<in> set ''abcdefghijklmnopqrstuvwxyzABCDEFGHIJKLMNOPQRSTUVWXYZ_'' \<and>
          list_all (\<lambda>x. x \<in> set ''abcdefghijklmnopqrstuvwxyzABCDEFGHIJKLMNOPQRSTUVWXYZ_0123456789'')
            cs)"

text \<open>
  Name resolution under \<^verbatim>\<open>SET search_path TO s1, s2\<close>: the first schema of the path that
  exists and holds the tables; a schema of the path that does not exist is skipped.
\<close>

fun find_tables :: "(string \<rightharpoonup> partition) \<Rightarrow> string list \<Rightarrow> (string \<times> partition) option" where
  "find_tables sch [] = None"
| "find_tables sch (n # ns) =
     (case sch n of
        None \<Rightarrow> find_tables sch ns
      | Some p \<Rightarrow> if has_tables p then Some (n, p) else find_tables sch ns)"

section \<open>Token issuance (app/core/security.py)\<close>

text \<open>
  \<open>jwt_encode\<close> is the signing function of the JWT library, a parameter. The library
  writes \<^verbatim>\<open>exp\<close> in whole seconds.
\<close>

record token_response =
  access_token :: string
  refresh_token_str :: string
  token_type :: string
  expires_in :: int

definition create_access_token ::
  "(claims \<Rightarrow> string) \<Rightarrow> datetime \<Rightarrow> string \<Rightarrow> string \<Rightarrow> string list \<Rightarrow> string" where
  "create_access_token jwt_encode now uid tid roles =
     (let expire = now + ACCESS_TOKEN_EXPIRE_MINUTES * 60 * 1000000
      in jwt_encode \<lparr> c_sub = Some uid, c_tenant_id = Some tid, c_roles = Some roles,
                      c_exp = Some (expire div 1000000), c_type = Some ''access'' \<rparr>)"

definition create_refresh_token ::
  "(claims \<Rightarrow> string) \<Rightarrow> datetime \<Rightarrow> string \<Rightarrow> string \<Rightarrow> string" where
  "create_refresh_token jwt_encode now uid tid =
     (let expire = now + REFRESH_TOKEN_EXPIRE_DAYS * 24 * 60 * 60 * 1000000
      in jwt_encode \<lparr> c_sub = Some uid, c_tenant_id = Some tid, c_roles = None,
                      c_exp = Some (expire div 1000000), c_type = Some ''refresh'' \<rparr>)"

definition create_token_pair ::
  "(claims \<Rightarrow> string) \<Rightarrow> datetime \<Rightarrow> string \<Rightarrow> string \<Rightarrow> string list \<Rightarrow> token_response" where
  "create_token_pair jwt_encode now uid tid roles =
     \<lparr> access_token = create_access_token jwt_encode now uid tid roles,
       refresh_token_str = create_refresh_token jwt_encode now uid tid,
       token_type = ''bearer'',
       expires_in = ACCESS_TOKEN_EXPIRE_MINUTES * 60 \<rparr>"

section \<open>Tenant directory (app/services/tenant_service.py)\<close>

definition get_by_slug :: "database \<Rightarrow> string \<Rightarrow> error + tenant option" where
  "get_by_slug db s = scalar_one_or_none (filter (\<lambda>t. slug t = s) (tenants_rows db))"

text \<open>The fields of \<^verbatim>\<open>TenantRegistration\<close> the workflow uses.\<close>

record tenant_registration =
  reg_tenant_name :: string
  reg_tenant_slug :: string
  reg_contact_email :: string
  reg_admin_email :: string
  reg_admin_username :: string
  reg_admin_password :: string

text \<open>
  The storage statements after the first commit at which a failure of the storage engine
  can be injected; \<open>fault st\<close> says that statement \<open>st\<close> fails.
\<close>

datatype stmt = CreateSchemaStmt | CreateTablesStmt | SeedRolesStmt | MarkCreatedCommit
  | InsertAdminStmt | AdminCommit

definition fresh_id :: "nat list \<Rightarrow> nat" where
  "fresh_id ids = Suc (fold max ids 0)"

text \<open>
  \<^verbatim>\<open>TenantService.create\<close>: the row is added with \<^verbatim>\<open>schema_created=False\<close>, flushed (a
  value longer than its column is a \<^verbatim>\<open>DBAPIError\<close>: \<^verbatim>\<open>name\<close> and
  \<^verbatim>\<open>contact_email\<close> are \<^verbatim>\<open>String(255)\<close>, \<^verbatim>\<open>slug\<close> and \<^verbatim>\<open>schema_name\<close> are
  \<^verbatim>\<open>String(100)\<close>; a taken slug or schema name violates the unique constraints), the
  settings row added, and both are committed.
\<close>

definition tenant_create :: "string \<Rightarrow> string \<Rightarrow> string \<Rightarrow> session \<Rightarrow> session \<times> (error + tenant)" where
  "tenant_create nm sl contact s =
     (let sname = TENANT_SCHEMA_PREFIX @ sl;
          w = working s;
          t = \<lparr> t_id = fresh_id (map t_id (tenants_rows w)), t_name = nm, slug = sl,
                t_is_active = True, t_is_verified = False, t_contact_email = contact,
                schema_name = sname, schema_created = False \<rparr>
      in if 255 < length nm \<or> 100 < length sl \<or> 255 < length contact \<or> 100 < length sname
         then (s, Inl DBAPIError)
         else if list_ex (\<lambda>x. slug x = sl \<or> schema_name x = sname) (tenants_rows w)
         then (s, Inl IntegrityError)
         else
           (let w1 = w\<lparr>tenants_rows := tenants_rows w @ [t],
                       tenant_settings_rows := tenant_settings_rows w @ [t_id t]\<rparr>
            in (commit (s\<lparr>working := w1\<rparr>), Inr t)))"

text \<open>
  \<^verbatim>\<open>TenantService.create_schema\<close>: the statements run in one transaction; any exception
  is answered by \<^verbatim>\<open>rollback\<close> and raised again.
\<close>

definition seed_role :: "string \<Rightarrow> string list \<Rightarrow> string list" where
  "seed_role code rs = (if code \<in> set rs then rs else rs @ [code])"

definition create_schema_body :: "(stmt \<Rightarrow> bool) \<Rightarrow> tenant \<Rightarrow> database \<Rightarrow> error + database" where
  "create_schema_body fault t w =
     (let sname = schema_name t in
      if \<not> is_identifier sname then Inl ProgrammingError
      else if fault CreateSchemaStmt then Inl OperationalError
      else
        (let p0 = (case schemas w sname of
                     None \<Rightarrow> \<lparr> has_tables = False, users_rows = [], roles_rows = [] \<rparr>
                   | Some p \<Rightarrow> p)
         in if fault CreateTablesStmt then Inl OperationalError
            else if fault SeedRolesStmt then Inl OperationalError
            else
              (let p1 = p0\<lparr>has_tables := True,
                           roles_rows := seed_role ''user'' (seed_role ''admin'' (roles_rows p0))\<rparr>;
                   w1 = w\<lparr>schemas := (schemas w)(sname \<mapsto> p1),
                          tenants_rows :=
                            map (\<lambda>x. if t_id x = t_id t then x\<lparr>schema_created := True\<rparr> else x)
                              (tenants_rows w)\<rparr>
               in if fault MarkCreatedCommit then Inl OperationalError else Inr w1)))"

definition create_schema :: "(stmt \<Rightarrow> bool) \<Rightarrow> tenant \<Rightarrow> session \<Rightarrow> session \<times> (error + bool)" where
  "create_schema fault t s =
     (case create_schema_body fault t (working s) of
        Inl e \<Rightarrow> (rollback s, Inl e)
      | Inr w1 \<Rightarrow> (commit (s\<lparr>working := w1\<rparr>), Inr True))"

section \<open>Creating the administrator (app/services/user_service.py)\<close>

text \<open>
  \<^verbatim>\<open>create_admin_user\<close> under the search path \<open>sp\<close>: the \<^verbatim>\<open>admin\<close> role is looked up, the
  row is flushed (a value longer than its column is a \<^verbatim>\<open>DBAPIError\<close>: \<^verbatim>\<open>email\<close> and
  \<^verbatim>\<open>password_hash\<close> are \<^verbatim>\<open>VARCHAR(255)\<close>, \<^verbatim>\<open>username\<close> is \<^verbatim>\<open>VARCHAR(100)\<close>; email
  and username are unique in the table), the role is attached when it was found, and the
  transaction is committed. \<open>hash\<close> is the password hash function, a parameter. Nothing
  here rolls back or catches. The \<^verbatim>\<open>roles\<close> relationship of the returned object is not
  loaded; \<open>role_codes\<close> of the row says what a later load would give.
\<close>

definition create_admin_user ::
  "(stmt \<Rightarrow> bool) \<Rightarrow> (string \<Rightarrow> string) \<Rightarrow> string list \<Rightarrow> string \<Rightarrow> string \<Rightarrow> string \<Rightarrow>
   session \<Rightarrow> session \<times> (error + user)" where
  "create_admin_user fault hash sp mail uname password s =
     (let w = working s in
      case find_tables (schemas w) sp of
        None \<Rightarrow> (s, Inl ProgrammingError)
      | Some (n, p) \<Rightarrow>
          (let admin_role = (''admin'' \<in> set (roles_rows p));
               u = \<lparr> user_id = fresh_id (map user_id (users_rows p)), email = mail,
                     username = uname, password_hash = hash password, is_active = True,
                     is_verified = True, is_superuser = True, is_deleted = False,
                     failed_login_attempts = 0, locked_until = None, last_login = None,
                     role_codes = (if admin_role then [''admin''] else []) \<rparr>
           in if fault InsertAdminStmt then (s, Inl OperationalError)
              else if 255 < length mail \<or> 100 < length uname \<or> 255 < length (hash password)
                then (s, Inl DBAPIError)
              else if list_ex (\<lambda>x. email x = mail \<or> username x = uname) (users_rows p)
                then (s, Inl IntegrityError)
              else
                (let w1 = w\<lparr>schemas := (schemas w)(n \<mapsto> p\<lparr>users_rows := users_rows p @ [u]\<rparr>)\<rparr>;
                     s1 = s\<lparr>working := w1\<rparr>
                 in if fault AdminCommit then (s1, Inl OperationalError)
                    else (commit s1, Inr u))))"

section \<open>Authentication service (app/services/auth_service.py)\<close>

text \<open>
  \<^verbatim>\<open>AuthService.login\<close> on the committed database (its only write is the commit inside
  \<^verbatim>\<open>authenticate\<close>). \<open>str_of\<close> renders a user id as text.
\<close>

definition login ::
  "(claims \<Rightarrow> string) \<Rightarrow> (string \<Rightarrow> string \<Rightarrow> bool) \<Rightarrow> (nat \<Rightarrow> string) \<Rightarrow> datetime \<Rightarrow>
   database \<Rightarrow> string \<Rightarrow> string \<Rightarrow> string option \<Rightarrow>
   database \<times> (error + (token_response \<times> user \<times> tenant) option)" where
  "login jwt_encode verify_password str_of now db uname password tenant_slug =
     (case tenant_slug of
        None \<Rightarrow> (db, Inr None)
      | Some sl \<Rightarrow>
          if sl = [] then (db, Inr None)
          else
            (case get_by_slug db sl of
               Inl e \<Rightarrow> (db, Inl e)
             | Inr None \<Rightarrow> (db, Inr None)
             | Inr (Some t) \<Rightarrow>
                 if \<not> t_is_active t then (db, Inr None)
                 else if \<not> is_identifier (schema_name t) then (db, Inl ProgrammingError)
                 else
                   (case find_tables (schemas db) [schema_name t, ''public''] of
                      None \<Rightarrow> (db, Inl ProgrammingError)
                    | Some (n, p) \<Rightarrow>
                        (case authenticate verify_password now (users_rows p) uname password of
                           (us, Inl e) \<Rightarrow> (db, Inl e)
                         | (us, Inr None) \<Rightarrow>
                             (db\<lparr>schemas := (schemas db)(n \<mapsto> p\<lparr>users_rows := us\<rparr>)\<rparr>, Inr None)
                         | (us, Inr (Some u)) \<Rightarrow>
                             (db\<lparr>schemas := (schemas db)(n \<mapsto> p\<lparr>users_rows := us\<rparr>)\<rparr>,
                              Inr (Some (create_token_pair jwt_encode now (str_of (user_id u)) sl
                                           (role_codes u), u, t)))))))"

text \<open>
  \<^verbatim>\<open>AuthService.refresh_token\<close>; \<open>uuid_of\<close> parses the subject claim as
  \<^verbatim>\<open>UUID(payload.sub)\<close> does (\<open>None\<close>: \<^verbatim>\<open>ValueError\<close>).
\<close>

definition refresh_token ::
  "jws \<Rightarrow> (claims \<Rightarrow> string) \<Rightarrow> (string \<Rightarrow> nat option) \<Rightarrow> (nat \<Rightarrow> string) \<Rightarrow> datetime \<Rightarrow>
   database \<Rightarrow> string \<Rightarrow> error + token_response option" where
  "refresh_token jws jwt_encode uuid_of str_of now db tok =
     (case verify_token jws now tok ''refresh'' of
        Inl e \<Rightarrow> Inl e
      | Inr None \<Rightarrow> Inr None
      | Inr (Some payload) \<Rightarrow>
          (case get_by_slug db (p_tenant_id payload) of
             Inl e \<Rightarrow> Inl e
           | Inr None \<Rightarrow> Inr None
           | Inr (Some t) \<Rightarrow>
               if \<not> t_is_active t then Inr None
               else if \<not> is_identifier (schema_name t) then Inl ProgrammingError
               else
                 (case uuid_of (p_sub payload) of
                    None \<Rightarrow> Inl ValueError
                  | Some uid \<Rightarrow>
                      (case find_tables (schemas db) [schema_name t, ''public''] of
                         None \<Rightarrow> Inl ProgrammingError
                       | Some (n, p) \<Rightarrow>
                           (case get_by_id (users_rows p) uid of
                              Inl e \<Rightarrow> Inl e
                            | Inr None \<Rightarrow> Inr None
                            | Inr (Some u) \<Rightarrow>
                                if \<not> is_active u then Inr None
                                else Inr (Some (create_token_pair jwt_encode now
                                                  (str_of (user_id u)) (p_tenant_id payload)
                                                  (role_codes u))))))))"

text \<open>
  \<^verbatim>\<open>user.role_codes\<close> on the object \<^verbatim>\<open>create_admin_user\<close> returns: its \<^verbatim>\<open>roles\<close>
  relationship was never loaded, and the lazy load cannot run on the asynchronous session.
\<close>

definition unloaded_role_codes :: "user \<Rightarrow> error + string list" where
  "unloaded_role_codes u = Inl MissingGreenlet"

text \<open>
  \<^verbatim>\<open>AuthService.register_tenant\<close>: the three service calls in order, each exception
  propagating to the caller, then the token pair from \<^verbatim>\<open>user.role_codes\<close>. The tenant
  object returned is the one \<^verbatim>\<open>create_schema\<close> marked.
\<close>

definition register_tenant ::
  "(stmt \<Rightarrow> bool) \<Rightarrow> (claims \<Rightarrow> string) \<Rightarrow> (string \<Rightarrow> string) \<Rightarrow> (nat \<Rightarrow> string) \<Rightarrow> datetime \<Rightarrow>
   tenant_registration \<Rightarrow> session \<Rightarrow> session \<times> (error + tenant \<times> user \<times> token_response)" where
  "register_tenant fault jwt_encode hash str_of now data s =
     (case tenant_create (reg_tenant_name data) (reg_tenant_slug data) (reg_contact_email data) s of
        (s1, Inl e) \<Rightarrow> (s1, Inl e)
      | (s1, Inr t) \<Rightarrow>
          (case create_schema fault t s1 of
             (s2, Inl e) \<Rightarrow> (s2, Inl e)
           | (s2, Inr ok) \<Rightarrow>
               if \<not> is_identifier (schema_name t) then (s2, Inl ProgrammingError)
               else
                 (case create_admin_user fault hash [schema_name t, ''public'']
                         (reg_admin_email data) (reg_admin_username data)
                         (reg_admin_password data) s2 of
                    (s3, Inl e) \<Rightarrow> (s3, Inl e)
                  | (s3, Inr u) \<Rightarrow>
                      (case unloaded_role_codes u of
                         Inl e \<Rightarrow> (s3, Inl e)
                       | Inr roles \<Rightarrow>
                           (s3, Inr (t\<lparr>schema_created := True\<rparr>, u,
                                     create_token_pair jwt_encode now (str_of (user_id u))
                                       (slug t) roles))))))"

text \<open>
  A request ends by closing its session (\<^verbatim>\<open>get_db\<close>): what other requests can query
  afterwards is the committed database.
\<close>

definition register_request ::
  "(stmt \<Rightarrow> bool) \<Rightarrow> (claims \<Rightarrow> string) \<Rightarrow> (string \<Rightarrow> string) \<Rightarrow> (nat \<Rightarrow> string) \<Rightarrow> datetime \<Rightarrow>
   tenant_registration \<Rightarrow> database \<Rightarrow> database \<times> (error + tenant \<times> user \<times> token_response)" where
  "register_request fault jwt_encode hash str_of now data db =
     (case register_tenant fault jwt_encode hash str_of now data
             \<lparr> committed = db, working = db \<rparr> of
        (s, r) \<Rightarrow> (committed s, r))"

section \<open>Authentication endpoints (app/api/v1/auth.py)\<close>

definition login_endpoint ::
  "(claims \<Rightarrow> string) \<Rightarrow> (string \<Rightarrow> string \<Rightarrow> bool) \<Rightarrow> (nat \<Rightarrow> string) \<Rightarrow> datetime \<Rightarrow>
   database \<Rightarrow> string \<Rightarrow> string \<Rightarrow> string option \<Rightarrow> database \<times> (error + token_response)" where
  "login_endpoint jwt_encode verify_password str_of now db uname password tenant_slug =
     (case login jwt_encode verify_password str_of now db uname password tenant_slug of
        (db1, Inl e) \<Rightarrow> (db1, Inl e)
      | (db1, Inr None) \<Rightarrow> (db1, Inl (HTTPException 401 ''Invalid credentials or tenant''))
      | (db1, Inr (Some (token_response, u, t))) \<Rightarrow> (db1, Inr token_response))"

text \<open>
  \<^verbatim>\<open>POST /auth/logout\<close>: the dependency \<^verbatim>\<open>get_current_user_token\<close>, then the fixed
  message. Neither reads the tenant directory.
\<close>

definition logout :: "jws \<Rightarrow> datetime \<Rightarrow> string option \<Rightarrow> error + string" where
  "logout jws now credentials =
     (case get_current_user_token jws now credentials of
        Inl e \<Rightarrow> Inl e
      | Inr current_user \<Rightarrow> Inr ''Logged out successfully'')"

section \<open>The resolution order in the specification's words\<close>

text \<open>
  The three tenant sources as the specification names them, to be compared with
  \<^verbatim>\<open>_extract_tenant\<close>. The bearer token is the text after \<open>Bearer \<close> up to the next
  space; its tenant claim counts when the token decodes and the claim is not empty. The
  header counts when it is present and not empty. The leading label of a host name is
  its text up to the first dot.
\<close>

definition bearer_token :: "request \<Rightarrow> string option" where
  "bearer_token req =
     (case headers req ''Authorization'' of
        None \<Rightarrow> None
      | Some h \<Rightarrow>
          if take 7 h = ''Bearer '' then Some (takeWhile (\<lambda>c. c \<noteq> CHR '' '') (drop 7 h))
          else None)"

definition token_tenant :: "jws \<Rightarrow> datetime \<Rightarrow> request \<Rightarrow> string option" where
  "token_tenant jws now req =
     (case bearer_token req of
        None \<Rightarrow> None
      | Some tok \<Rightarrow>
          (case decode_token jws now tok of
             Inr (Some p) \<Rightarrow> if p_tenant_id p = [] then None else Some (p_tenant_id p)
           | _ \<Rightarrow> None))"

definition header_tenant :: "request \<Rightarrow> string option" where
  "header_tenant req =
     (case headers req ''X-Tenant-ID'' of
        None \<Rightarrow> None
      | Some h \<Rightarrow> if h = [] then None else Some h)"

definition leading_label :: "string \<Rightarrow> string" where
  "leading_label h = takeWhile (\<lambda>c. c \<noteq> CHR ''.'') h"

text \<open>
  The third source as claim C7 states it: the leading label of the host name unless it is
  reserved.
\<close>

definition host_tenant_as_claimed :: "request \<Rightarrow> string option" where
  "host_tenant_as_claimed req =
     (case headers req ''Host'' of
        None \<Rightarrow> None
      | Some h \<Rightarrow>
          if leading_label h \<in> {''www'', ''api'', ''app''} then None
          else Some (leading_label h))"

text \<open>
  The third source as amended: the host name must contain a dot and its leading label
  must not be empty.
\<close>

definition host_tenant :: "request \<Rightarrow> string option" where
  "host_tenant req =
     (case headers req ''Host'' of
        None \<Rightarrow> None
      | Some h \<Rightarrow>
          if CHR ''.'' \<in> set h \<and> leading_label h \<noteq> [] \<and>
             leading_label h \<notin> {''www'', ''api'', ''app''}
          then Some (leading_label h)
          else None)"

text \<open>First match wins.\<close>

fun first_match :: "'a option list \<Rightarrow> 'a option" where
  "first_match [] = None"
| "first_match (None # xs) = first_match xs"
| "first_match (Some x # xs) = Some x"

section \<open>Auxiliary notions for the statements\<close>

text \<open>
  The database with the \<^verbatim>\<open>schema_created\<close> flag of every tenant row set to \<open>b\<close>; used to
  state that an operation does not read the flag.
\<close>

definition mark_created :: "bool \<Rightarrow> database \<Rightarrow> database" where
  "mark_created b db =
     db\<lparr>tenants_rows := map (\<lambda>t. t\<lparr>schema_created := b\<rparr>) (tenants_rows db)\<rparr>"

text \<open>
  The result of login with the flag of a returned tenant record set to \<open>b\<close>.
\<close>

definition shown_with_flag ::
  "bool \<Rightarrow> error + (token_response \<times> user \<times> tenant) option \<Rightarrow>
   error + (token_response \<times> user \<times> tenant) option" where
  "shown_with_flag b r =
     (case r of
        Inl e \<Rightarrow> Inl e
      | Inr None \<Rightarrow> Inr None
      | Inr (Some (tokens, u, t)) \<Rightarrow> Inr (Some (tokens, u, t\<lparr>schema_created := b\<rparr>)))"

section \<open>Public paths\<close>

lemma startswith_slash_public: "startswith p ''/'' \<Longrightarrow> is_public_path p"
  by (simp add: is_public_path_def PUBLIC_PATHS_def)

text \<open>
  Claim C10, as the code has it. Every request path that begins with \<open>/\<close> is public,
  because \<open>/\<close> is in the list and the comparison is by prefix; on such a path
  \<^verbatim>\<open>dispatch\<close> takes the early return: the downstream application is called with the
  context variable as it was and no request-state tenant, and the context variable is left
  as it was, whatever token or headers the request carries.
\<close>

theorem slash_paths_are_public:
  "startswith (path req) ''/'' \<Longrightarrow>
     is_public_path (path req) \<and>
     dispatch jws now call_next req cur = (cur, call_next cur None)"
  by (simp add: startswith_slash_public dispatch_def)

theorem slash_paths_are_public_witness:
  "startswith (path \<lparr> path = ''/api/v1/users'', headers = [''X-Tenant-ID'' \<mapsto> ''acme''] \<rparr>) ''/'' \<and>
   is_public_path ''/api/v1/users'' \<and>
   dispatch (\<lambda>_. None) 0 (\<lambda>c s. Inr (c, s))
     \<lparr> path = ''/api/v1/users'', headers = [''X-Tenant-ID'' \<mapsto> ''acme''] \<rparr> None
   = (None, (Inr (None, None) :: error + (string option \<times> string option)))"
  using slash_paths_are_public
    [of "\<lparr> path = ''/api/v1/users'', headers = [''X-Tenant-ID'' \<mapsto> ''acme''] \<rparr>"
        "\<lambda>_. None" 0 "\<lambda>c s. (Inr (c, s) :: error + (string option \<times> string option))" None]
  by (simp add: startswith_def)

text \<open>
  Claim C10 as stated fails for a path that does not begin with \<open>/\<close>: the empty path
  is not public, and \<^verbatim>\<open>dispatch\<close> then extracts the tenant of the
  \<^verbatim>\<open>X-Tenant-ID\<close> header, shows it to the downstream application and clears it.
\<close>

theorem empty_path_not_public:
  "\<not> is_public_path [] \<and>
   dispatch (\<lambda>_. None) 0 (\<lambda>c s. Inr (c, s))
     \<lparr> path = [], headers = [''X-Tenant-ID'' \<mapsto> ''acme''] \<rparr> None
   = (None, (Inr (Some ''acme'', Some ''acme'') :: error + (string option \<times> string option)))"
  by (simp add: is_public_path_def PUBLIC_PATHS_def startswith_def API_V1_PREFIX_def
      dispatch_def extract_tenant_def)

section \<open>Role authorization\<close>

text \<open>
  Claim C5. For every verified token payload and every required role list (empty or
  disjoint included): a payload holding the role \<open>admin\<close> is allowed; otherwise the
  payload is allowed exactly when its roles intersect the required ones, and the denial is
  the 403 exception. A missing token and a token that does not verify are the 401
  exception, raised before the role check.
\<close>

theorem require_roles_rule:
  "(''admin'' \<in> set (p_roles tok) \<longrightarrow> role_checker req tok = Inr tok) \<and>
   (''admin'' \<notin> set (p_roles tok) \<longrightarrow>
      role_checker req tok =
        (if set req \<inter> set (p_roles tok) \<noteq> {} then Inr tok
         else Inl (HTTPException 403 (''Required roles: '' @ join '', '' req)))) \<and>
   get_current_user_token jws now None = Inl (HTTPException 401 ''Not authenticated'') \<and>
   require_roles req jws now None = Inl (HTTPException 401 ''Not authenticated'') \<and>
   (verify_token jws now t ''access'' = Inr None \<longrightarrow>
      get_current_user_token jws now (Some t) =
        Inl (HTTPException 401 ''Invalid or expired token'') \<and>
      require_roles req jws now (Some t) =
        Inl (HTTPException 401 ''Invalid or expired token'')) \<and>
   (verify_token jws now t ''access'' = Inr (Some tok) \<longrightarrow>
      require_roles req jws now (Some t) = role_checker req tok)"
  by (auto simp add: role_checker_def get_current_user_token_def require_roles_def Let_def)

theorem require_roles_rule_witness:
  "role_checker []
     \<lparr> p_sub = ''7'', p_tenant_id = ''acme'', p_exp = 2000000000000000, p_type = ''access'',
       p_roles = [''admin''] \<rparr>
   = Inr \<lparr> p_sub = ''7'', p_tenant_id = ''acme'', p_exp = 2000000000000000, p_type = ''access'',
           p_roles = [''admin''] \<rparr> \<and>
   role_checker [''manager'', ''clerk'']
     \<lparr> p_sub = ''8'', p_tenant_id = ''acme'', p_exp = 2000000000000000, p_type = ''access'',
       p_roles = [''clerk''] \<rparr>
   = Inr \<lparr> p_sub = ''8'', p_tenant_id = ''acme'', p_exp = 2000000000000000, p_type = ''access'',
           p_roles = [''clerk''] \<rparr> \<and>
   role_checker [''manager'']
     \<lparr> p_sub = ''8'', p_tenant_id = ''acme'', p_exp = 2000000000000000, p_type = ''access'',
       p_roles = [''clerk''] \<rparr>
   = Inl (HTTPException 403 ''Required roles: manager'') \<and>
   require_roles [''manager''] (\<lambda>_. None) 0 (Some ''garbage'')
   = Inl (HTTPException 401 ''Invalid or expired token'')"
proof -
  have v: "verify_token (\<lambda>_. None) 0 ''garbage'' ''access'' = Inr None"
    by (simp add: verify_token_def decode_token_def jwt_decode_def)
  show ?thesis
    using require_roles_rule
        [of "\<lparr> p_sub = ''7'', p_tenant_id = ''acme'', p_exp = 2000000000000000,
               p_type = ''access'', p_roles = [''admin''] \<rparr>" "[]" "\<lambda>_. None" 0 "''garbage''"]
      require_roles_rule
        [of "\<lparr> p_sub = ''8'', p_tenant_id = ''acme'', p_exp = 2000000000000000,
               p_type = ''access'', p_roles = [''clerk''] \<rparr>" "[''manager'', ''clerk'']"]
      require_roles_rule
        [of "\<lparr> p_sub = ''8'', p_tenant_id = ''acme'', p_exp = 2000000000000000,
               p_type = ''access'', p_roles = [''clerk''] \<rparr>" "[''manager'']" "\<lambda>_. None" 0 "''garbage''"]
      v
    by simp
qed

section \<open>Token verification\<close>

text \<open>
  Claim C4, as the code has it. A token whose signature does not validate is rejected. A
  token whose signature validates and whose claims carry a subject, a tenant and an expiry
  that \<^verbatim>\<open>fromtimestamp\<close> can represent is accepted exactly when its kind (\<open>access\<close>
  when the claim is absent) equals the expected kind and \<open>now > expiry\<close> is false; every
  other such token is rejected with \<open>None\<close>.
\<close>

theorem verify_token_three_checks:
  "(jws token = None \<longrightarrow> verify_token jws now token kind = Inr None) \<and>
   (jws token = Some c \<and> c_sub c = Some s \<and> c_tenant_id c = Some t \<and> c_exp c = Some e \<and>
    - 62135596800 \<le> e \<and> e \<le> 253402300799 \<longrightarrow>
      verify_token jws now token kind =
        (if (case c_type c of None \<Rightarrow> ''access'' | Some k \<Rightarrow> k) = kind \<and> \<not> now > e * 1000000
         then Inr (Some \<lparr> p_sub = s, p_tenant_id = t, p_exp = e * 1000000,
                           p_type = kind,
                           p_roles = (case c_roles c of None \<Rightarrow> [] | Some rs \<Rightarrow> rs) \<rparr>)
         else Inr None))"
proof -
  have jose: "e * 1000000 \<ge> now \<Longrightarrow> \<not> e < now div 1000000"
    by linarith
  show ?thesis
    using jose
    by (auto simp add: verify_token_def decode_token_def jwt_decode_def fromtimestamp_def)
qed

text \<open>
  The witness: one token, accepted one second before its expiry, rejected one second
  after it, rejected where a refresh token is expected, and a string without a valid
  signature rejected.
\<close>

theorem verify_token_three_checks_witness:
  "verify_token
     (\<lambda>x. if x = ''tok'' then Some \<lparr> c_sub = Some ''7'', c_tenant_id = Some ''acme'',
         c_roles = Some [''clerk''], c_exp = Some 1700000000, c_type = Some ''access'' \<rparr> else None)
     1699999999000000 ''tok'' ''access''
   = Inr (Some \<lparr> p_sub = ''7'', p_tenant_id = ''acme'', p_exp = 1700000000000000,
                  p_type = ''access'', p_roles = [''clerk''] \<rparr>) \<and>
   verify_token
     (\<lambda>x. if x = ''tok'' then Some \<lparr> c_sub = Some ''7'', c_tenant_id = Some ''acme'',
         c_roles = Some [''clerk''], c_exp = Some 1700000000, c_type = Some ''access'' \<rparr> else None)
     1700000001000000 ''tok'' ''access''
   = Inr None \<and>
   verify_token
     (\<lambda>x. if x = ''tok'' then Some \<lparr> c_sub = Some ''7'', c_tenant_id = Some ''acme'',
         c_roles = Some [''clerk''], c_exp = Some 1700000000, c_type = Some ''access'' \<rparr> else None)
     1699999999000000 ''tok'' ''refresh''
   = Inr None \<and>
   verify_token
     (\<lambda>x. if x = ''tok'' then Some \<lparr> c_sub = Some ''7'', c_tenant_id = Some ''acme'',
         c_roles = Some [''clerk''], c_exp = Some 1700000000, c_type = Some ''access'' \<rparr> else None)
     1699999999000000 ''forged'' ''access''
   = Inr None"
  using verify_token_three_checks
      [of "\<lambda>x. if x = ''tok'' then Some \<lparr> c_sub = Some ''7'', c_tenant_id = Some ''acme'',
         c_roles = Some [''clerk''], c_exp = Some 1700000000, c_type = Some ''access'' \<rparr> else None"
        "''tok''" 1699999999000000 "''access''"
        "\<lparr> c_sub = Some ''7'', c_tenant_id = Some ''acme'',
         c_roles = Some [''clerk''], c_exp = Some 1700000000, c_type = Some ''access'' \<rparr>"
        "''7''" "''acme''" 1700000000]
    verify_token_three_checks
      [of "\<lambda>x. if x = ''tok'' then Some \<lparr> c_sub = Some ''7'', c_tenant_id = Some ''acme'',
         c_roles = Some [''clerk''], c_exp = Some 1700000000, c_type = Some ''access'' \<rparr> else None"
        "''tok''" 1700000001000000 "''access''"
        "\<lparr> c_sub = Some ''7'', c_tenant_id = Some ''acme'',
         c_roles = Some [''clerk''], c_exp = Some 1700000000, c_type = Some ''access'' \<rparr>"
        "''7''" "''acme''" 1700000000]
    verify_token_three_checks
      [of "\<lambda>x. if x = ''tok'' then Some \<lparr> c_sub = Some ''7'', c_tenant_id = Some ''acme'',
         c_roles = Some [''clerk''], c_exp = Some 1700000000, c_type = Some ''access'' \<rparr> else None"
        "''tok''" 1699999999000000 "''refresh''"
        "\<lparr> c_sub = Some ''7'', c_tenant_id = Some ''acme'',
         c_roles = Some [''clerk''], c_exp = Some 1700000000, c_type = Some ''access'' \<rparr>"
        "''7''" "''acme''" 1700000000]
    verify_token_three_checks
      [of "\<lambda>x. if x = ''tok'' then Some \<lparr> c_sub = Some ''7'', c_tenant_id = Some ''acme'',
         c_roles = Some [''clerk''], c_exp = Some 1700000000, c_type = Some ''access'' \<rparr> else None"
        "''forged''" 1699999999000000 "''access''"]
  by simp

text \<open>
  Claim C4 as stated fails for a token that passes all three checks and lacks the subject
  claim: its signature validates, its kind is the expected one and its expiry lies ahead,
  and \<^verbatim>\<open>verify_token\<close> raises the validation error of \<^verbatim>\<open>TokenPayload\<close> instead of
  returning the payload.
\<close>

theorem verify_token_missing_subject_raises:
  "verify_token
     (\<lambda>x. Some \<lparr> c_sub = None, c_tenant_id = Some ''acme'', c_roles = None,
                  c_exp = Some 1700000000, c_type = Some ''access'' \<rparr>)
     1699999999000000 ''tok'' ''access''
   = Inl ValidationError"
  by (simp add: verify_token_def decode_token_def jwt_decode_def fromtimestamp_def)

section \<open>Tenant extraction\<close>

lemma split_chr_takeWhile:
  "split_chr c s =
     takeWhile (\<lambda>x. x \<noteq> c) s #
       (if c \<in> set s then split_chr c (tl (dropWhile (\<lambda>x. x \<noteq> c) s)) else [])"
  by (induction s) (auto split: list.splits)

lemma split_bearer:
  assumes "take 7 h = ''Bearer ''"
  shows "\<exists>rest. split_chr CHR '' '' h = ''Bearer'' # takeWhile (\<lambda>c. c \<noteq> CHR '' '') (drop 7 h) # rest"
proof -
  have h: "h = ''Bearer '' @ drop 7 h"
    using assms append_take_drop_id [of 7 h] by simp
  have "split_chr CHR '' '' (''Bearer '' @ drop 7 h) = ''Bearer'' # split_chr CHR '' '' (drop 7 h)"
    by simp
  moreover have "\<exists>rest. split_chr CHR '' '' (drop 7 h) = takeWhile (\<lambda>c. c \<noteq> CHR '' '') (drop 7 h) # rest"
    using split_chr_takeWhile [of "CHR '' ''" "drop 7 h"] by blast
  ultimately show ?thesis using h by metis
qed

lemma startswith_bearer: "startswith h ''Bearer '' \<longleftrightarrow> take 7 h = ''Bearer ''"
proof -
  have len: "length ''Bearer '' = 7" by simp
  show ?thesis by (simp only: startswith_def len)
qed

lemma split_host:
  "\<exists>rest. split_chr CHR ''.'' h = leading_label h # rest"
  using split_chr_takeWhile [of "CHR ''.''" h] by (simp add: leading_label_def)

text \<open>
  Claim C7, as the code has it. For every request whose bearer token, if there is one,
  decodes without an uncaught exception, \<^verbatim>\<open>_extract_tenant\<close> returns the first match
  of, in this order: the tenant claim of the decodable bearer token, the
  \<^verbatim>\<open>X-Tenant-ID\<close> header, and the leading label of a \<^verbatim>\<open>Host\<close> name that contains a
  dot, when that label is not empty and not one of \<open>www\<close>, \<open>api\<close>, \<open>app\<close>; when none
  matches the result is \<open>None\<close>, not an exception.
\<close>

theorem extract_tenant_order:
  assumes "\<And>tok. bearer_token req = Some tok \<Longrightarrow> \<exists>r. decode_token jws now tok = Inr r"
  shows "extract_tenant jws now req =
           Inr (first_match [token_tenant jws now req, header_tenant req, host_tenant req])"
proof -
  have rest: "(let tenant_header = headers req ''X-Tenant-ID'' in
              if truthy tenant_header then Inr tenant_header
              else
                (let host = (case headers req ''Host'' of None \<Rightarrow> [] | Some h \<Rightarrow> h) in
                 if CHR ''.'' \<in> set host then
                   (case split_chr CHR ''.'' host of
                      [] \<Rightarrow> Inl IndexError
                    | subdomain # _ \<Rightarrow>
                        if subdomain \<noteq> [] \<and> subdomain \<notin> set [''www'', ''api'', ''app'']
                        then Inr (Some subdomain)
                        else Inr None)
                 else Inr None)) = (Inr (first_match [header_tenant req, host_tenant req]) :: error + string option)"
  proof (cases "headers req ''X-Tenant-ID''")
    case None
    show ?thesis
    proof (cases "headers req ''Host''")
      case None
      with \<open>headers req ''X-Tenant-ID'' = None\<close> show ?thesis
        by (simp add: header_tenant_def host_tenant_def)
    next
      case (Some h)
      obtain rest where "split_chr CHR ''.'' h = leading_label h # rest"
        using split_host by blast
      with Some \<open>headers req ''X-Tenant-ID'' = None\<close> show ?thesis
        by (simp add: header_tenant_def host_tenant_def)
    qed
  next
    case (Some x)
    show ?thesis
    proof (cases "x = []")
      case False
      with Some show ?thesis by (simp add: header_tenant_def)
    next
      case True
      show ?thesis
      proof (cases "headers req ''Host''")
        case None
        with Some True show ?thesis
          by (simp add: header_tenant_def host_tenant_def)
      next
        case (Some h)
        obtain rest where "split_chr CHR ''.'' h = leading_label h # rest"
          using split_host by blast
        with Some True \<open>headers req ''X-Tenant-ID'' = Some x\<close> show ?thesis
          by (simp add: header_tenant_def host_tenant_def)
      qed
    qed
  qed
  show ?thesis
  proof (cases "bearer_token req")
    case None
    then have "(case headers req ''Authorization'' of
               None \<Rightarrow> Inr None
             | Some auth_header \<Rightarrow>
                 if auth_header \<noteq> [] \<and> startswith auth_header ''Bearer '' then
                   (case split_chr CHR '' '' auth_header of
                      _ # token # _ \<Rightarrow>
                        (case decode_token jws now token of
                           Inl e \<Rightarrow> Inl e
                         | Inr None \<Rightarrow> Inr None
                         | Inr (Some payload) \<Rightarrow>
                             if p_tenant_id payload \<noteq> [] then Inr (Some (p_tenant_id payload))
                             else Inr None)
                    | _ \<Rightarrow> Inl IndexError)
                 else Inr None) = (Inr None :: error + string option)"
      by (auto simp add: bearer_token_def startswith_bearer split: option.splits if_splits)
    moreover have "token_tenant jws now req = None"
      using None by (simp add: token_tenant_def)
    ultimately show ?thesis
      using rest unfolding extract_tenant_def by (simp add: Let_def)
  next
    case (Some tok)
    then obtain h where h: "headers req ''Authorization'' = Some h" "take 7 h = ''Bearer ''"
      "tok = takeWhile (\<lambda>c. c \<noteq> CHR '' '') (drop 7 h)"
      by (auto simp add: bearer_token_def split: option.splits if_splits)
    obtain rs where sp: "split_chr CHR '' '' h = ''Bearer'' # tok # rs"
      using split_bearer [OF h(2)] h(3) by blast
    have hne: "h \<noteq> []" "startswith h ''Bearer ''"
      using h(2) by (auto simp add: startswith_bearer)
    obtain r where r: "decode_token jws now tok = Inr r"
      using assms [OF Some] by blast
    show ?thesis
    proof (cases r)
      case None
      with r h sp hne Some rest show ?thesis
        unfolding extract_tenant_def by (simp add: Let_def token_tenant_def)
    next
      case (Some p)
      with r h sp hne \<open>bearer_token req = Some tok\<close> rest show ?thesis
        unfolding extract_tenant_def by (simp add: Let_def token_tenant_def)
    qed
  qed
qed

theorem extract_tenant_order_witness:
  "extract_tenant
     (\<lambda>x. if x = ''tok'' then Some \<lparr> c_sub = Some ''7'', c_tenant_id = Some ''acme'',
         c_roles = None, c_exp = Some 1700000000, c_type = Some ''access'' \<rparr> else None)
     1699999999000000
     \<lparr> path = ''/items'',
       headers = [''Authorization'' \<mapsto> ''Bearer tok'', ''X-Tenant-ID'' \<mapsto> ''beta'',
                  ''Host'' \<mapsto> ''gamma.example.com''] \<rparr>
   = Inr (Some ''acme'') \<and>
   extract_tenant (\<lambda>x. None) 1699999999000000
     \<lparr> path = ''/items'',
       headers = [''Authorization'' \<mapsto> ''Bearer tok'', ''X-Tenant-ID'' \<mapsto> ''beta'',
                  ''Host'' \<mapsto> ''gamma.example.com''] \<rparr>
   = Inr (Some ''beta'') \<and>
   extract_tenant (\<lambda>x. None) 1699999999000000
     \<lparr> path = ''/items'', headers = [''Host'' \<mapsto> ''gamma.example.com''] \<rparr>
   = Inr (Some ''gamma'') \<and>
   extract_tenant (\<lambda>x. None) 1699999999000000
     \<lparr> path = ''/items'', headers = [''Host'' \<mapsto> ''www.example.com''] \<rparr>
   = Inr None"
proof -
  let ?J = "\<lambda>x. if x = ''tok'' then Some \<lparr> c_sub = Some ''7'', c_tenant_id = Some ''acme'',
         c_roles = None, c_exp = Some 1700000000, c_type = Some ''access'' \<rparr> else None"
  let ?R1 = "\<lparr> path = ''/items'',
       headers = [''Authorization'' \<mapsto> ''Bearer tok'', ''X-Tenant-ID'' \<mapsto> ''beta'',
                  ''Host'' \<mapsto> ''gamma.example.com''] \<rparr>"
  let ?R3 = "\<lparr> path = ''/items'', headers = [''Host'' \<mapsto> ''gamma.example.com''] \<rparr>"
  let ?R4 = "\<lparr> path = ''/items'', headers = [''Host'' \<mapsto> ''www.example.com''] \<rparr>"
  have b1: "bearer_token ?R1 = Some ''tok''"
    by (simp add: bearer_token_def)
  have d1: "decode_token ?J 1699999999000000 ''tok'' =
      Inr (Some \<lparr> p_sub = ''7'', p_tenant_id = ''acme'', p_exp = 1700000000000000,
                   p_type = ''access'', p_roles = [] \<rparr>)"
    by (simp add: decode_token_def jwt_decode_def fromtimestamp_def)
  have d2: "decode_token (\<lambda>x. None) 1699999999000000 ''tok'' = Inr None"
    by (simp add: decode_token_def jwt_decode_def)
  have b3: "bearer_token ?R3 = None" "bearer_token ?R4 = None"
    by (simp_all add: bearer_token_def)
  have e1: "extract_tenant ?J 1699999999000000 ?R1 =
      Inr (first_match [token_tenant ?J 1699999999000000 ?R1, header_tenant ?R1, host_tenant ?R1])"
    by (rule extract_tenant_order) (use b1 d1 in simp)
  have e2: "extract_tenant (\<lambda>x. None) 1699999999000000 ?R1 =
      Inr (first_match [token_tenant (\<lambda>x. None) 1699999999000000 ?R1, header_tenant ?R1,
                        host_tenant ?R1])"
    by (rule extract_tenant_order) (use b1 d2 in simp)
  have e3: "extract_tenant (\<lambda>x. None) 1699999999000000 ?R3 =
      Inr (first_match [token_tenant (\<lambda>x. None) 1699999999000000 ?R3, header_tenant ?R3,
                        host_tenant ?R3])"
    by (rule extract_tenant_order) (use b3 in simp)
  have e4: "extract_tenant (\<lambda>x. None) 1699999999000000 ?R4 =
      Inr (first_match [token_tenant (\<lambda>x. None) 1699999999000000 ?R4, header_tenant ?R4,
                        host_tenant ?R4])"
    by (rule extract_tenant_order) (use b3 in simp)
  show ?thesis
    using e1 e2 e3 e4 b1 b3 d1 d2
    by (simp add: token_tenant_def header_tenant_def host_tenant_def leading_label_def)
qed

text \<open>
  Claim C7 as stated fails for a host name without a dot: for the host \<open>localhost\<close> the
  leading label is \<open>localhost\<close>, which is not reserved, and \<^verbatim>\<open>_extract_tenant\<close>
  returns no tenant.
\<close>

theorem extract_tenant_single_label_host:
  "extract_tenant (\<lambda>x. None) 1699999999000000
     \<lparr> path = ''/items'', headers = [''Host'' \<mapsto> ''localhost''] \<rparr>
   = Inr None \<and>
   first_match
     [token_tenant (\<lambda>x. None) 1699999999000000
        \<lparr> path = ''/items'', headers = [''Host'' \<mapsto> ''localhost''] \<rparr>,
      header_tenant \<lparr> path = ''/items'', headers = [''Host'' \<mapsto> ''localhost''] \<rparr>,
      host_tenant_as_claimed \<lparr> path = ''/items'', headers = [''Host'' \<mapsto> ''localhost''] \<rparr>]
   = Some ''localhost''"
  by (simp add: extract_tenant_def token_tenant_def bearer_token_def header_tenant_def
      host_tenant_as_claimed_def leading_label_def)

section \<open>Clearing the tenant context\<close>

lemma dispatch_raise_keeps_tenant:
  "\<not> is_public_path (path req) \<Longrightarrow> extract_tenant jws now req = Inr (Some t) \<Longrightarrow> t \<noteq> [] \<Longrightarrow>
   call_next (Some t) (Some t) = Inl e \<Longrightarrow>
   dispatch jws now call_next req cur = (Some t, Inl e)"
  by (simp add: dispatch_def)

lemma dispatch_return_clears:
  "\<not> is_public_path (path req) \<Longrightarrow> extract_tenant jws now req = Inr tid \<Longrightarrow>
   call_next (if truthy tid then tid else None) (if truthy tid then tid else None) = Inr resp \<Longrightarrow>
   dispatch jws now call_next req cur = (None, Inr resp)"
  by (cases "truthy tid") (simp_all add: dispatch_def Let_def)

text \<open>
  Claim C6 at a failing input. The request has a path that is not public and the header
  \<^verbatim>\<open>X-Tenant-ID: acme\<close>; the downstream application raises. \<^verbatim>\<open>dispatch\<close> has set the
  context variable to \<open>acme\<close> and leaves it set: the statement that clears it comes after
  \<^verbatim>\<open>call_next\<close> and is not reached.
\<close>

theorem dispatch_handler_raises_tenant_stays:
  "dispatch (\<lambda>x. None) 1699999999000000 (\<lambda>c s. (Inl ValueError :: error + string))
     \<lparr> path = [], headers = [''X-Tenant-ID'' \<mapsto> ''acme''] \<rparr> None
   = (Some ''acme'', Inl ValueError)"
  by (simp add: dispatch_def is_public_path_def PUBLIC_PATHS_def startswith_def API_V1_PREFIX_def
      extract_tenant_def)

section \<open>The account guard\<close>

lemma minute_lt_60: "0 \<le> minute t \<and> minute t < 60"
  by (simp add: minute_def)

text \<open>
  What \<^verbatim>\<open>authenticate\<close> does once the lookup (by username, then by email) has found the
  identity \<open>u\<close>.
\<close>

lemma authenticate_found:
  assumes "get_by_username users n = Inr (Some u) \<or>
           (get_by_username users n = Inr None \<and> get_by_email users n = Inr (Some u))"
  shows "authenticate vp now users n pw =
     (if \<not> is_active u then (users, Inr None)
      else if (case locked_until u of None \<Rightarrow> False | Some t \<Rightarrow> t > now) then (users, Inr None)
      else if \<not> vp pw (password_hash u) then
        (if failed_login_attempts u + 1 \<ge> 5 then
           (if minute now < 30 then (users, Inl DBAPIError) else (users, Inl ValueError))
         else
           (map (\<lambda>x. if user_id x = user_id u
                       then u\<lparr>failed_login_attempts := failed_login_attempts u + 1\<rparr> else x) users,
            Inr None))
      else if last_login u = Some now then
        (map (\<lambda>x. if user_id x = user_id u
                    then u\<lparr>failed_login_attempts := 0, locked_until := None,
                           last_login := Some now\<rparr> else x) users,
         Inr (Some (u\<lparr>failed_login_attempts := 0, locked_until := None,
                       last_login := Some now\<rparr>)))
      else (users, Inl DBAPIError))"
  using assms minute_lt_60 [of now]
  by (auto simp add: authenticate_def replace_minute_def commit_user_def unbindable_def Let_def
      split: option.splits)

text \<open>
  While the lockout expiry lies ahead, an attempt returns \<open>None\<close> and leaves the table as
  it was, whatever the password and whatever the password check would say.
\<close>

lemma authenticate_locked_fails:
  assumes "get_by_username users n = Inr (Some u) \<or>
           (get_by_username users n = Inr None \<and> get_by_email users n = Inr (Some u))"
    and "locked_until u = Some t" and "now < t"
  shows "authenticate vp now users n pw = (users, Inr None)"
  using assms(2,3) by (simp add: authenticate_found [OF assms(1)])

text \<open>
  Claim C2 at a failing input. The identity is active, unlocked and not deleted; the
  password is wrong. With three earlier failures the fourth is stored. With four earlier
  failures the fifth is never stored and the identity is never locked: at 22:29:00 UTC the
  expiry is computed as 22:59:00 and the commit of that aware value into the
  \<^verbatim>\<open>locked_until\<close> column raises \<^verbatim>\<open>DBAPIError\<close>; at 22:30:00 UTC
  \<^verbatim>\<open>replace(minute=60)\<close> raises \<^verbatim>\<open>ValueError\<close> before the commit.
\<close>

theorem authenticate_fifth_failure_raises:
  "authenticate (\<lambda>p h. False) 1700000940000000
     [\<lparr> user_id = 1, email = ''bob@acme.test'', username = ''bob'', password_hash = ''h'',
        is_active = True, is_verified = True, is_superuser = False, is_deleted = False,
        failed_login_attempts = 3, locked_until = None, last_login = None,
        role_codes = [''user''] \<rparr>] ''bob'' ''wrong''
   = ([\<lparr> user_id = 1, email = ''bob@acme.test'', username = ''bob'', password_hash = ''h'',
         is_active = True, is_verified = True, is_superuser = False, is_deleted = False,
         failed_login_attempts = 4, locked_until = None, last_login = None,
         role_codes = [''user''] \<rparr>], Inr None) \<and>
   authenticate (\<lambda>p h. False) 1700000940000000
     [\<lparr> user_id = 1, email = ''bob@acme.test'', username = ''bob'', password_hash = ''h'',
        is_active = True, is_verified = True, is_superuser = False, is_deleted = False,
        failed_login_attempts = 4, locked_until = None, last_login = None,
        role_codes = [''user''] \<rparr>] ''bob'' ''wrong''
   = ([\<lparr> user_id = 1, email = ''bob@acme.test'', username = ''bob'', password_hash = ''h'',
         is_active = True, is_verified = True, is_superuser = False, is_deleted = False,
         failed_login_attempts = 4, locked_until = None, last_login = None,
         role_codes = [''user''] \<rparr>], Inl DBAPIError) \<and>
   authenticate (\<lambda>p h. False) 1700001000000000
     [\<lparr> user_id = 1, email = ''bob@acme.test'', username = ''bob'', password_hash = ''h'',
        is_active = True, is_verified = True, is_superuser = False, is_deleted = False,
        failed_login_attempts = 4, locked_until = None, last_login = None,
        role_codes = [''user''] \<rparr>] ''bob'' ''wrong''
   = ([\<lparr> user_id = 1, email = ''bob@acme.test'', username = ''bob'', password_hash = ''h'',
         is_active = True, is_verified = True, is_superuser = False, is_deleted = False,
         failed_login_attempts = 4, locked_until = None, last_login = None,
         role_codes = [''user''] \<rparr>], Inl ValueError)"
  by (simp add: authenticate_def get_by_username_def commit_user_def unbindable_def minute_def
      replace_minute_def)

text \<open>
  Claim C3 at a failing input. The identity is active and locked until 22:23:20 UTC; the
  password is correct. Ten minutes before the expiry the attempt returns \<open>None\<close> and
  changes nothing, as the claim says. One second after the expiry the attempt passes the
  password check, and the commit of the aware login time into the \<^verbatim>\<open>last_login\<close> column
  raises \<^verbatim>\<open>DBAPIError\<close>: the identity is not returned, the counter is not reset and the
  expiry is not cleared.
\<close>

theorem authenticate_after_lockout_raises:
  "authenticate (\<lambda>p h. h = ''hash:'' @ p) 1700000000000000
     [\<lparr> user_id = 1, email = ''bob@acme.test'', username = ''bob'',
        password_hash = ''hash:secret'',
        is_active = True, is_verified = True, is_superuser = False, is_deleted = False,
        failed_login_attempts = 5, locked_until = Some 1700000600000000, last_login = None,
        role_codes = [''user''] \<rparr>] ''bob'' ''secret''
   = ([\<lparr> user_id = 1, email = ''bob@acme.test'', username = ''bob'',
         password_hash = ''hash:secret'',
         is_active = True, is_verified = True, is_superuser = False, is_deleted = False,
         failed_login_attempts = 5, locked_until = Some 1700000600000000, last_login = None,
         role_codes = [''user''] \<rparr>], Inr None) \<and>
   authenticate (\<lambda>p h. h = ''hash:'' @ p) 1700000601000000
     [\<lparr> user_id = 1, email = ''bob@acme.test'', username = ''bob'',
        password_hash = ''hash:secret'',
        is_active = True, is_verified = True, is_superuser = False, is_deleted = False,
        failed_login_attempts = 5, locked_until = Some 1700000600000000, last_login = None,
        role_codes = [''user''] \<rparr>] ''bob'' ''secret''
   = ([\<lparr> user_id = 1, email = ''bob@acme.test'', username = ''bob'',
         password_hash = ''hash:secret'',
         is_active = True, is_verified = True, is_superuser = False, is_deleted = False,
         failed_login_attempts = 5, locked_until = Some 1700000600000000, last_login = None,
         role_codes = [''user''] \<rparr>], Inl DBAPIError)"
  by (simp add: authenticate_def get_by_username_def commit_user_def unbindable_def)

section \<open>The tenant gate of login and refresh\<close>

lemma scalar_one_or_none_map:
  "scalar_one_or_none (map f xs) =
     (case scalar_one_or_none xs of
        Inl e \<Rightarrow> Inl e
      | Inr None \<Rightarrow> Inr None
      | Inr (Some x) \<Rightarrow> Inr (Some (f x)))"
  by (cases xs rule: scalar_one_or_none.cases) simp_all

lemma get_by_slug_mark_created:
  "get_by_slug (mark_created b db) s =
     (case get_by_slug db s of
        Inl e \<Rightarrow> Inl e
      | Inr None \<Rightarrow> Inr None
      | Inr (Some t) \<Rightarrow> Inr (Some (t\<lparr>schema_created := b\<rparr>)))"
  by (simp add: get_by_slug_def mark_created_def filter_map o_def scalar_one_or_none_map)

lemma schemas_mark_created: "schemas (mark_created b db) = schemas db"
  by (simp add: mark_created_def)

text \<open>What login returns, step by step.\<close>

lemma login_snd:
  "snd (login enc vp str_of now db n pw sl) =
     (case sl of
        None \<Rightarrow> Inr None
      | Some s \<Rightarrow>
          if s = [] then Inr None
          else
            (case get_by_slug db s of
               Inl e \<Rightarrow> Inl e
             | Inr None \<Rightarrow> Inr None
             | Inr (Some t) \<Rightarrow>
                 if \<not> t_is_active t then Inr None
                 else if \<not> is_identifier (schema_name t) then Inl ProgrammingError
                 else
                   (case find_tables (schemas db) [schema_name t, ''public''] of
                      None \<Rightarrow> Inl ProgrammingError
                    | Some (nm, p) \<Rightarrow>
                        (case snd (authenticate vp now (users_rows p) n pw) of
                           Inl e \<Rightarrow> Inl e
                         | Inr None \<Rightarrow> Inr None
                         | Inr (Some u) \<Rightarrow>
                             Inr (Some (create_token_pair enc now (str_of (user_id u)) s
                                          (role_codes u), u, t))))))"
  by (simp add: login_def del: find_tables.simps split: option.splits sum.splits prod.splits)

lemma login_ignores_schema_created:
  "snd (login enc vp str_of now (mark_created b db) n pw sl) =
   shown_with_flag b (snd (login enc vp str_of now db n pw sl))"
proof (cases sl)
  case None
  then show ?thesis by (simp add: login_snd shown_with_flag_def)
next
  case (Some s)
  note sl = Some
  show ?thesis
  proof (cases "get_by_slug db s")
    case (Inl e)
    with sl show ?thesis
      by (simp add: login_snd get_by_slug_mark_created shown_with_flag_def)
  next
    case (Inr ot)
    show ?thesis
    proof (cases ot)
      case None
      with sl Inr show ?thesis
        by (simp add: login_snd get_by_slug_mark_created shown_with_flag_def)
    next
      case (Some t)
      with sl Inr show ?thesis
        by (simp add: login_snd get_by_slug_mark_created schemas_mark_created
            shown_with_flag_def del: find_tables.simps
            split: option.splits sum.splits prod.splits)
    qed
  qed
qed

lemma login_absent_or_inactive:
  assumes "get_by_slug db s = Inr None \<or>
           (\<exists>t. get_by_slug db s = Inr (Some t) \<and> t_is_active t = False)"
  shows "login enc vp str_of now db n pw (Some s) = (db, Inr None)"
  using assms by (auto simp add: login_def)

lemma refresh_absent_or_inactive:
  assumes "verify_token jws now tok ''refresh'' = Inr (Some p)"
    and "get_by_slug db (p_tenant_id p) = Inr None \<or>
         (\<exists>t. get_by_slug db (p_tenant_id p) = Inr (Some t) \<and> t_is_active t = False)"
  shows "refresh_token jws enc uuid_of str_of now db tok = Inr None"
  using assms by (auto simp add: refresh_token_def)

lemma refresh_ignores_schema_created:
  "refresh_token jws enc uuid_of str_of now (mark_created b db) tok =
   refresh_token jws enc uuid_of str_of now db tok"
proof (cases "verify_token jws now tok ''refresh''")
  case (Inl e)
  then show ?thesis by (simp add: refresh_token_def)
next
  case (Inr op)
  show ?thesis
  proof (cases op)
    case None
    with Inr show ?thesis by (simp add: refresh_token_def)
  next
    case (Some payload)
    note v = Inr [unfolded Some]
    show ?thesis
    proof (cases "get_by_slug db (p_tenant_id payload)")
      case (Inl e)
      with v show ?thesis by (simp add: refresh_token_def get_by_slug_mark_created)
    next
      case (Inr ot)
      show ?thesis
      proof (cases ot)
        case None
        with v Inr show ?thesis by (simp add: refresh_token_def get_by_slug_mark_created)
      next
        case (Some t)
        with v Inr show ?thesis
          by (simp add: refresh_token_def get_by_slug_mark_created schemas_mark_created
              del: find_tables.simps cong: option.case_cong)
      qed
    qed
  qed
qed

text \<open>
  Claim C8, as the code has it. For every tenant that is absent from the directory or
  whose \<^verbatim>\<open>is_active\<close> flag is false, login and token refresh return the generic failure
  \<open>None\<close>. Neither reads \<^verbatim>\<open>schema_created\<close>: setting the flag of every tenant row to
  any value changes nothing in what refresh returns, and in what login returns only the
  flag shown in the tenant record.
\<close>

theorem login_refresh_tenant_gate:
  "((get_by_slug db s = Inr None \<or>
     (\<exists>t. get_by_slug db s = Inr (Some t) \<and> t_is_active t = False)) \<longrightarrow>
      login enc vp str_of now db n pw (Some s) = (db, Inr None)) \<and>
   (verify_token jws now tok ''refresh'' = Inr (Some p) \<and>
    (get_by_slug db (p_tenant_id p) = Inr None \<or>
     (\<exists>t. get_by_slug db (p_tenant_id p) = Inr (Some t) \<and> t_is_active t = False)) \<longrightarrow>
      refresh_token jws enc uuid_of str_of now db tok = Inr None) \<and>
   snd (login enc vp str_of now (mark_created b db) n pw sl) =
     shown_with_flag b (snd (login enc vp str_of now db n pw sl)) \<and>
   refresh_token jws enc uuid_of str_of now (mark_created b db) tok =
     refresh_token jws enc uuid_of str_of now db tok"
  using login_absent_or_inactive [of db s enc vp str_of now n pw]
    refresh_absent_or_inactive [of jws now tok p db enc uuid_of str_of]
    login_ignores_schema_created [of enc vp str_of now b db n pw sl]
    refresh_ignores_schema_created [of jws enc uuid_of str_of now b db tok]
  by blast

text \<open>
  The witness: the tenant \<open>acme\<close> is deactivated, and login with the correct password and
  refresh with a valid refresh token of one of its identities return \<open>None\<close>; with the
  tenant active and its flag set to false, refresh returns a token pair as it does with
  the flag set to true.
\<close>

theorem login_refresh_tenant_gate_witness:
  "login (\<lambda>c. ''jwt'') (\<lambda>p h. h = ''hash:'' @ p) (\<lambda>i. ''uuid'') 1700000000000000
     \<lparr> tenants_rows =
         [\<lparr> t_id = 1, t_name = ''Acme'', slug = ''acme'', t_is_active = False,
            t_is_verified = False, t_contact_email = ''ops@acme.test'',
            schema_name = ''tenant_acme'', schema_created = True \<rparr>],
       tenant_settings_rows = [1],
       schemas = [''tenant_acme'' \<mapsto>
         \<lparr> has_tables = True,
           users_rows =
             [\<lparr> user_id = 1, email = ''bob@acme.test'', username = ''bob'',
                password_hash = ''hash:secret'', is_active = True, is_verified = True,
                is_superuser = False, is_deleted = False, failed_login_attempts = 0,
                locked_until = None, last_login = None, role_codes = [''user''] \<rparr>],
           roles_rows = [''admin'', ''user''] \<rparr>] \<rparr>
     ''bob'' ''secret'' (Some ''acme'')
   = (\<lparr> tenants_rows =
         [\<lparr> t_id = 1, t_name = ''Acme'', slug = ''acme'', t_is_active = False,
            t_is_verified = False, t_contact_email = ''ops@acme.test'',
            schema_name = ''tenant_acme'', schema_created = True \<rparr>],
       tenant_settings_rows = [1],
       schemas = [''tenant_acme'' \<mapsto>
         \<lparr> has_tables = True,
           users_rows =
             [\<lparr> user_id = 1, email = ''bob@acme.test'', username = ''bob'',
                password_hash = ''hash:secret'', is_active = True, is_verified = True,
                is_superuser = False, is_deleted = False, failed_login_attempts = 0,
                locked_until = None, last_login = None, role_codes = [''user''] \<rparr>],
           roles_rows = [''admin'', ''user''] \<rparr>] \<rparr>, Inr None) \<and>
   refresh_token
     (\<lambda>x. if x = ''rtok'' then Some \<lparr> c_sub = Some ''1'', c_tenant_id = Some ''acme'',
         c_roles = None, c_exp = Some 1700600000, c_type = Some ''refresh'' \<rparr> else None)
     (\<lambda>c. ''jwt'') (\<lambda>x. if x = ''1'' then Some 1 else None) (\<lambda>i. ''1'') 1700000000000000
     \<lparr> tenants_rows =
         [\<lparr> t_id = 1, t_name = ''Acme'', slug = ''acme'', t_is_active = False,
            t_is_verified = False, t_contact_email = ''ops@acme.test'',
            schema_name = ''tenant_acme'', schema_created = True \<rparr>],
       tenant_settings_rows = [1],
       schemas = [''tenant_acme'' \<mapsto>
         \<lparr> has_tables = True,
           users_rows =
             [\<lparr> user_id = 1, email = ''bob@acme.test'', username = ''bob'',
                password_hash = ''hash:secret'', is_active = True, is_verified = True,
                is_superuser = False, is_deleted = False, failed_login_attempts = 0,
                locked_until = None, last_login = None, role_codes = [''user''] \<rparr>],
           roles_rows = [''admin'', ''user''] \<rparr>] \<rparr>
     ''rtok''
   = Inr None \<and>
   refresh_token
     (\<lambda>x. if x = ''rtok'' then Some \<lparr> c_sub = Some ''1'', c_tenant_id = Some ''acme'',
         c_roles = None, c_exp = Some 1700600000, c_type = Some ''refresh'' \<rparr> else None)
     (\<lambda>c. ''jwt'') (\<lambda>x. if x = ''1'' then Some 1 else None) (\<lambda>i. ''1'') 1700000000000000
     (mark_created False
        \<lparr> tenants_rows =
            [\<lparr> t_id = 1, t_name = ''Acme'', slug = ''acme'', t_is_active = True,
               t_is_verified = False, t_contact_email = ''ops@acme.test'',
               schema_name = ''tenant_acme'', schema_created = True \<rparr>],
          tenant_settings_rows = [1],
          schemas = [''tenant_acme'' \<mapsto>
            \<lparr> has_tables = True,
              users_rows =
                [\<lparr> user_id = 1, email = ''bob@acme.test'', username = ''bob'',
                   password_hash = ''hash:secret'', is_active = True, is_verified = True,
                   is_superuser = False, is_deleted = False, failed_login_attempts = 0,
                   locked_until = None, last_login = None, role_codes = [''user''] \<rparr>],
              roles_rows = [''admin'', ''user''] \<rparr>] \<rparr>)
     ''rtok''
   = Inr (Some \<lparr> access_token = ''jwt'', refresh_token_str = ''jwt'', token_type = ''bearer'',
                  expires_in = 1800 \<rparr>)"
proof -
  let ?J = "\<lambda>x. if x = ''rtok'' then Some \<lparr> c_sub = Some ''1'', c_tenant_id = Some ''acme'',
         c_roles = None, c_exp = Some 1700600000, c_type = Some ''refresh'' \<rparr> else None"
  let ?P = "\<lparr> p_sub = ''1'', p_tenant_id = ''acme'', p_exp = 1700600000000000,
             p_type = ''refresh'', p_roles = [] \<rparr>"
  let ?part = "\<lparr> has_tables = True,
           users_rows =
             [\<lparr> user_id = 1, email = ''bob@acme.test'', username = ''bob'',
                password_hash = ''hash:secret'', is_active = True, is_verified = True,
                is_superuser = False, is_deleted = False, failed_login_attempts = 0,
                locked_until = None, last_login = None, role_codes = [''user''] \<rparr>],
           roles_rows = [''admin'', ''user''] \<rparr>"
  let ?Ti = "\<lparr> t_id = 1, t_name = ''Acme'', slug = ''acme'', t_is_active = False,
            t_is_verified = False, t_contact_email = ''ops@acme.test'',
            schema_name = ''tenant_acme'', schema_created = True \<rparr>"
  let ?Ta = "\<lparr> t_id = 1, t_name = ''Acme'', slug = ''acme'', t_is_active = True,
            t_is_verified = False, t_contact_email = ''ops@acme.test'',
            schema_name = ''tenant_acme'', schema_created = True \<rparr>"
  let ?DBi = "\<lparr> tenants_rows = [?Ti], tenant_settings_rows = [1],
               schemas = [''tenant_acme'' \<mapsto> ?part] \<rparr>"
  let ?DBa = "\<lparr> tenants_rows = [?Ta], tenant_settings_rows = [1],
               schemas = [''tenant_acme'' \<mapsto> ?part] \<rparr>"
  have v: "verify_token ?J 1700000000000000 ''rtok'' ''refresh'' = Inr (Some ?P)"
    by (simp add: verify_token_def decode_token_def jwt_decode_def fromtimestamp_def)
  have g: "get_by_slug ?DBi ''acme'' = Inr (Some ?Ti)" "t_is_active ?Ti = False"
    by (simp_all add: get_by_slug_def)
  have g': "get_by_slug ?DBi (p_tenant_id ?P) = Inr (Some ?Ti)"
    using g(1) by simp
  have ev: "refresh_token ?J (\<lambda>c. ''jwt'') (\<lambda>x. if x = ''1'' then Some 1 else None) (\<lambda>i. ''1'')
              1700000000000000 ?DBa ''rtok''
            = Inr (Some \<lparr> access_token = ''jwt'', refresh_token_str = ''jwt'',
                           token_type = ''bearer'', expires_in = 1800 \<rparr>)"
    using v
    by (simp add: refresh_token_def get_by_slug_def is_identifier_def get_by_id_def
        create_token_pair_def create_access_token_def create_refresh_token_def
        ACCESS_TOKEN_EXPIRE_MINUTES_def)
  note t1 = login_refresh_tenant_gate
    [where db = ?DBi and s = "''acme''" and enc = "\<lambda>c. ''jwt''"
       and vp = "\<lambda>p h. h = ''hash:'' @ p" and str_of = "\<lambda>i. ''uuid''"
       and now = 1700000000000000 and n = "''bob''" and pw = "''secret''"
       and jws = "\<lambda>x. None" and tok = "''none''" and b = False and sl = None]
  note t2 = login_refresh_tenant_gate
    [where db = ?DBi and s = "''acme''" and enc = "\<lambda>c. ''jwt''"
       and vp = "\<lambda>p h. h = ''hash:'' @ p" and str_of = "\<lambda>i. ''1''"
       and now = 1700000000000000 and n = "''bob''" and pw = "''secret''"
       and jws = ?J and tok = "''rtok''" and p = ?P
       and uuid_of = "\<lambda>x. if x = ''1'' then Some 1 else None" and b = False and sl = None]
  note t3 = login_refresh_tenant_gate
    [where db = ?DBa and s = "''acme''" and enc = "\<lambda>c. ''jwt''"
       and vp = "\<lambda>p h. h = ''hash:'' @ p" and str_of = "\<lambda>i. ''1''"
       and now = 1700000000000000 and n = "''bob''" and pw = "''secret''"
       and jws = ?J and tok = "''rtok''" and p = ?P
       and uuid_of = "\<lambda>x. if x = ''1'' then Some 1 else None" and b = False and sl = None]
  have w1: "login (\<lambda>c. ''jwt'') (\<lambda>p h. h = ''hash:'' @ p) (\<lambda>i. ''uuid'') 1700000000000000
              ?DBi ''bob'' ''secret'' (Some ''acme'') = (?DBi, Inr None)"
    using t1 g by blast
  have w2: "refresh_token ?J (\<lambda>c. ''jwt'') (\<lambda>x. if x = ''1'' then Some 1 else None) (\<lambda>i. ''1'')
              1700000000000000 ?DBi ''rtok'' = Inr None"
    using t2 v g' g(2) by blast
  have w3: "refresh_token ?J (\<lambda>c. ''jwt'') (\<lambda>x. if x = ''1'' then Some 1 else None) (\<lambda>i. ''1'')
              1700000000000000 (mark_created False ?DBa) ''rtok''
            = Inr (Some \<lparr> access_token = ''jwt'', refresh_token_str = ''jwt'',
                           token_type = ''bearer'', expires_in = 1800 \<rparr>)"
    using t3 ev by simp
  from w1 w2 w3 show ?thesis by blast
qed

text \<open>
  Claim C8 as stated fails. (1) After the interrupted registration of \<open>acme-corp\<close> the
  directory holds that tenant with \<^verbatim>\<open>schema_created = False\<close>; a request carrying a
  valid access token of that tenant is accepted by \<^verbatim>\<open>get_current_user_token\<close> and
  answered by \<^verbatim>\<open>POST /auth/logout\<close>, and nothing on the way looks at the tenant. (2) For
  a directory row whose flag is false beside a partition that holds an identity, token
  refresh with a valid refresh token of that identity returns a new token pair.
\<close>

theorem unprovisioned_tenant_is_served:
  "get_by_slug
     (fst (register_request (\<lambda>st. False) (\<lambda>c. ''jwt'') (\<lambda>p. ''hash:'' @ p) (\<lambda>i. ''uuid'')
          1700000000000000
          \<lparr> reg_tenant_name = ''Acme'', reg_tenant_slug = ''acme-corp'',
            reg_contact_email = ''ops@acme.test'', reg_admin_email = ''root@acme.test'',
            reg_admin_username = ''root'', reg_admin_password = ''Secret123'' \<rparr>
          \<lparr> tenants_rows = [], tenant_settings_rows = [], schemas = Map.empty \<rparr>))
     ''acme-corp''
   = Inr (Some \<lparr> t_id = 1, t_name = ''Acme'', slug = ''acme-corp'', t_is_active = True,
                  t_is_verified = False, t_contact_email = ''ops@acme.test'',
                  schema_name = ''tenant_acme-corp'', schema_created = False \<rparr>) \<and>
   get_current_user_token
     (\<lambda>x. if x = ''atok'' then Some \<lparr> c_sub = Some ''1'', c_tenant_id = Some ''acme-corp'',
         c_roles = Some [''user''], c_exp = Some 1700001800, c_type = Some ''access'' \<rparr>
           else None)
     1700000060000000 (Some ''atok'')
   = Inr \<lparr> p_sub = ''1'', p_tenant_id = ''acme-corp'', p_exp = 1700001800000000,
           p_type = ''access'', p_roles = [''user''] \<rparr> \<and>
   logout
     (\<lambda>x. if x = ''atok'' then Some \<lparr> c_sub = Some ''1'', c_tenant_id = Some ''acme-corp'',
         c_roles = Some [''user''], c_exp = Some 1700001800, c_type = Some ''access'' \<rparr>
           else None)
     1700000060000000 (Some ''atok'')
   = Inr ''Logged out successfully'' \<and>
   refresh_token
     (\<lambda>x. if x = ''rtok'' then Some \<lparr> c_sub = Some ''1'', c_tenant_id = Some ''acme'',
         c_roles = None, c_exp = Some 1700600000, c_type = Some ''refresh'' \<rparr> else None)
     (\<lambda>c. ''jwt'') (\<lambda>x. if x = ''1'' then Some 1 else None) (\<lambda>i. ''1'') 1700000000000000
     \<lparr> tenants_rows =
         [\<lparr> t_id = 1, t_name = ''Acme'', slug = ''acme'', t_is_active = True,
            t_is_verified = False, t_contact_email = ''ops@acme.test'',
            schema_name = ''tenant_acme'', schema_created = False \<rparr>],
       tenant_settings_rows = [1],
       schemas = [''tenant_acme'' \<mapsto>
         \<lparr> has_tables = True,
           users_rows =
             [\<lparr> user_id = 1, email = ''bob@acme.test'', username = ''bob'',
                password_hash = ''hash:secret'', is_active = True, is_verified = True,
                is_superuser = False, is_deleted = False, failed_login_attempts = 0,
                locked_until = None, last_login = None, role_codes = [''user''] \<rparr>],
           roles_rows = [''admin'', ''user''] \<rparr>] \<rparr>
     ''rtok''
   = Inr (Some \<lparr> access_token = ''jwt'', refresh_token_str = ''jwt'', token_type = ''bearer'',
                  expires_in = 1800 \<rparr>)"
  by (simp add: register_request_def register_tenant_def tenant_create_def create_schema_def
      create_schema_body_def commit_def rollback_def fresh_id_def TENANT_SCHEMA_PREFIX_def
      is_identifier_def get_by_slug_def Let_def
      logout_def get_current_user_token_def verify_token_def decode_token_def jwt_decode_def
      fromtimestamp_def refresh_token_def get_by_id_def create_token_pair_def
      create_access_token_def create_refresh_token_def ACCESS_TOKEN_EXPIRE_MINUTES_def)

section \<open>Tenant provisioning\<close>

lemma tenant_create_Inr:
  assumes "tenant_create nm sl contact s = (s1, Inr t)"
  shows "slug t = sl \<and> committed s1 = working s1 \<and>
         tenants_rows (committed s1) = tenants_rows (working s) @ [t]"
  using assms by (auto simp add: tenant_create_def Let_def commit_def split: if_splits)

lemma create_schema_keeps_slugs:
  assumes "create_schema fault t s = (s', r)" and "committed s = working s"
  shows "map slug (tenants_rows (committed s')) = map slug (tenants_rows (committed s)) \<and>
         committed s' = working s'"
proof (cases "create_schema_body fault t (working s)")
  case (Inl e)
  with assms show ?thesis by (auto simp add: create_schema_def rollback_def)
next
  case (Inr w1)
  then have "map slug (tenants_rows w1) = map slug (tenants_rows (working s))"
    by (auto simp add: create_schema_body_def Let_def o_def split: if_splits)
  with Inr assms show ?thesis by (auto simp add: create_schema_def commit_def)
qed

lemma create_admin_user_keeps_tenants:
  assumes "create_admin_user fault hash sp mail uname password s = (s', r)"
    and "committed s = working s"
  shows "tenants_rows (committed s') = tenants_rows (committed s)"
proof (cases "find_tables (schemas (working s)) sp")
  case None
  with assms show ?thesis by (auto simp add: create_admin_user_def)
next
  case (Some np)
  obtain n p where "np = (n, p)" by (cases np)
  with Some assms show ?thesis
    by (auto simp add: create_admin_user_def Let_def commit_def split: if_splits)
qed

text \<open>
  Once \<^verbatim>\<open>TenantService.create\<close> has inserted and committed the row, the tenant row of
  the requested slug is in the committed directory when the request ends, whatever fails
  afterwards.
\<close>

lemma register_failure_keeps_row:
  assumes tc: "tenant_create (reg_tenant_name data) (reg_tenant_slug data)
                 (reg_contact_email data) \<lparr> committed = db, working = db \<rparr> = (s1, Inr t)"
    and run: "register_request fault enc hash str_of now data db = (db', r)"
  shows "reg_tenant_slug data \<in> slug ` set (tenants_rows db')"
proof -
  have t1: "slug t = reg_tenant_slug data" "committed s1 = working s1"
      "tenants_rows (committed s1) = tenants_rows db @ [t]"
    using tenant_create_Inr [OF tc] by auto
  have in1: "reg_tenant_slug data \<in> set (map slug (tenants_rows (committed s1)))"
    using t1(1,3) by simp
  obtain s2 r2 where cs: "create_schema fault t s1 = (s2, r2)"
    by (cases "create_schema fault t s1")
  have k2: "map slug (tenants_rows (committed s2)) = map slug (tenants_rows (committed s1))"
      "committed s2 = working s2"
    using create_schema_keeps_slugs [OF cs t1(2)] by blast+
  have in2: "reg_tenant_slug data \<in> set (map slug (tenants_rows (committed s2)))"
    using in1 k2(1) by simp
  obtain s3 r3 where ca:
      "create_admin_user fault hash [schema_name t, ''public''] (reg_admin_email data)
         (reg_admin_username data) (reg_admin_password data) s2 = (s3, r3)"
    by (cases "create_admin_user fault hash [schema_name t, ''public''] (reg_admin_email data)
         (reg_admin_username data) (reg_admin_password data) s2")
  have in3: "reg_tenant_slug data \<in> set (map slug (tenants_rows (committed s3)))"
    using create_admin_user_keeps_tenants [OF ca k2(2)] in2 by simp
  have "db' = committed s2 \<or> db' = committed s3"
    using run tc cs ca
    by (auto simp add: register_request_def register_tenant_def unloaded_role_codes_def
        split: sum.splits if_splits)
  with in2 in3 show ?thesis by auto
qed

text \<open>
  Claim C1 at two failing inputs, each on a directory without the slug. (1) The slug
  \<open>acme-corp\<close> passes the slug validator, but \<^verbatim>\<open>CREATE SCHEMA IF NOT EXISTS
  tenant_acme-corp\<close> is a syntax error: \<^verbatim>\<open>create_schema\<close> rolls back and raises, and the
  tenant row committed by \<^verbatim>\<open>create\<close> is still found by its slug. (2) For the slug
  \<open>acme\<close> the insertion of the administrator fails after the partition was created: the
  tenant row is still found by its slug.
\<close>

theorem register_tenant_failure_leaves_row:
  "snd (register_request (\<lambda>st. False) (\<lambda>c. ''jwt'') (\<lambda>p. ''hash:'' @ p) (\<lambda>i. ''uuid'')
          1700000000000000
          \<lparr> reg_tenant_name = ''Acme'', reg_tenant_slug = ''acme-corp'',
            reg_contact_email = ''ops@acme.test'', reg_admin_email = ''root@acme.test'',
            reg_admin_username = ''root'', reg_admin_password = ''Secret123'' \<rparr>
          \<lparr> tenants_rows = [], tenant_settings_rows = [], schemas = Map.empty \<rparr>)
   = Inl ProgrammingError \<and>
   get_by_slug
     (fst (register_request (\<lambda>st. False) (\<lambda>c. ''jwt'') (\<lambda>p. ''hash:'' @ p) (\<lambda>i. ''uuid'')
          1700000000000000
          \<lparr> reg_tenant_name = ''Acme'', reg_tenant_slug = ''acme-corp'',
            reg_contact_email = ''ops@acme.test'', reg_admin_email = ''root@acme.test'',
            reg_admin_username = ''root'', reg_admin_password = ''Secret123'' \<rparr>
          \<lparr> tenants_rows = [], tenant_settings_rows = [], schemas = Map.empty \<rparr>))
     ''acme-corp''
   = Inr (Some \<lparr> t_id = 1, t_name = ''Acme'', slug = ''acme-corp'', t_is_active = True,
                  t_is_verified = False, t_contact_email = ''ops@acme.test'',
                  schema_name = ''tenant_acme-corp'', schema_created = False \<rparr>) \<and>
   snd (register_request (\<lambda>st. st = InsertAdminStmt) (\<lambda>c. ''jwt'') (\<lambda>p. ''hash:'' @ p)
          (\<lambda>i. ''uuid'') 1700000000000000
          \<lparr> reg_tenant_name = ''Acme'', reg_tenant_slug = ''acme'',
            reg_contact_email = ''ops@acme.test'', reg_admin_email = ''root@acme.test'',
            reg_admin_username = ''root'', reg_admin_password = ''Secret123'' \<rparr>
          \<lparr> tenants_rows = [], tenant_settings_rows = [], schemas = Map.empty \<rparr>)
   = Inl OperationalError \<and>
   get_by_slug
     (fst (register_request (\<lambda>st. st = InsertAdminStmt) (\<lambda>c. ''jwt'') (\<lambda>p. ''hash:'' @ p)
          (\<lambda>i. ''uuid'') 1700000000000000
          \<lparr> reg_tenant_name = ''Acme'', reg_tenant_slug = ''acme'',
            reg_contact_email = ''ops@acme.test'', reg_admin_email = ''root@acme.test'',
            reg_admin_username = ''root'', reg_admin_password = ''Secret123'' \<rparr>
          \<lparr> tenants_rows = [], tenant_settings_rows = [], schemas = Map.empty \<rparr>))
     ''acme''
   = Inr (Some \<lparr> t_id = 1, t_name = ''Acme'', slug = ''acme'', t_is_active = True,
                  t_is_verified = False, t_contact_email = ''ops@acme.test'',
                  schema_name = ''tenant_acme'', schema_created = True \<rparr>)"
  by (simp add: register_request_def register_tenant_def tenant_create_def create_schema_def
      create_schema_body_def create_admin_user_def commit_def rollback_def fresh_id_def
      TENANT_SCHEMA_PREFIX_def is_identifier_def seed_role_def get_by_slug_def Let_def)

section \<open>The answer to a failed login\<close>

text \<open>
  Whenever \<^verbatim>\<open>AuthService.login\<close> returns \<open>None\<close> (no slug, unknown or inactive tenant, no
  such identity, inactive identity, lockout, wrong password below the threshold), the
  endpoint answers with the one generic 401.
\<close>

lemma login_endpoint_generic:
  assumes "snd (login enc vp str_of now db n pw sl) = Inr None"
  shows "snd (login_endpoint enc vp str_of now db n pw sl) =
           Inl (HTTPException 401 ''Invalid credentials or tenant'')"
proof -
  obtain db1 where "login enc vp str_of now db n pw sl = (db1, Inr None)"
    using assms by (cases "login enc vp str_of now db n pw sl") simp
  then show ?thesis by (simp add: login_endpoint_def)
qed

text \<open>
  Claim C9 at a failing input. Two failing logins against the same database: one names a
  tenant that does not exist and gets the generic 401; the other gives a wrong password
  for an identity with four earlier failures at 22:30:00 UTC and ends in the uncaught
  \<^verbatim>\<open>ValueError\<close> of the lockout computation, which the caller sees as a server error.
\<close>

theorem login_failures_differ:
  "snd (login_endpoint (\<lambda>c. ''jwt'') (\<lambda>p h. h = ''hash:'' @ p) (\<lambda>i. ''uuid'') 1700001000000000
          \<lparr> tenants_rows =
              [\<lparr> t_id = 1, t_name = ''Acme'', slug = ''acme'', t_is_active = True,
                 t_is_verified = False, t_contact_email = ''ops@acme.test'',
                 schema_name = ''tenant_acme'', schema_created = True \<rparr>],
            tenant_settings_rows = [1],
            schemas = [''tenant_acme'' \<mapsto>
              \<lparr> has_tables = True,
                users_rows =
                  [\<lparr> user_id = 1, email = ''bob@acme.test'', username = ''bob'',
                     password_hash = ''hash:secret'', is_active = True, is_verified = True,
                     is_superuser = False, is_deleted = False, failed_login_attempts = 4,
                     locked_until = None, last_login = None, role_codes = [''user''] \<rparr>],
                roles_rows = [''admin'', ''user''] \<rparr>] \<rparr>
          ''bob'' ''wrong'' (Some ''nosuch''))
   = Inl (HTTPException 401 ''Invalid credentials or tenant'') \<and>
   snd (login_endpoint (\<lambda>c. ''jwt'') (\<lambda>p h. h = ''hash:'' @ p) (\<lambda>i. ''uuid'') 1700001000000000
          \<lparr> tenants_rows =
              [\<lparr> t_id = 1, t_name = ''Acme'', slug = ''acme'', t_is_active = True,
                 t_is_verified = False, t_contact_email = ''ops@acme.test'',
                 schema_name = ''tenant_acme'', schema_created = True \<rparr>],
            tenant_settings_rows = [1],
            schemas = [''tenant_acme'' \<mapsto>
              \<lparr> has_tables = True,
                users_rows =
                  [\<lparr> user_id = 1, email = ''bob@acme.test'', username = ''bob'',
                     password_hash = ''hash:secret'', is_active = True, is_verified = True,
                     is_superuser = False, is_deleted = False, failed_login_attempts = 4,
                     locked_until = None, last_login = None, role_codes = [''user''] \<rparr>],
                roles_rows = [''admin'', ''user''] \<rparr>] \<rparr>
          ''bob'' ''wrong'' (Some ''acme''))
   = Inl ValueError"
  by (simp add: login_endpoint_def login_def get_by_slug_def is_identifier_def authenticate_def
      get_by_username_def commit_user_def unbindable_def minute_def replace_minute_def
      Let_def)

end
